theory Spec2Isabelle
  imports Complex_Main "HOL-Library.Word"
begin

unbundle bit_operations_syntax

section \<open>Machine types of the C sources\<close>

text \<open>
  The four source files \<^verbatim>\<open>utils_canBus_charger_level1.c\<close> .. \<^verbatim>\<open>level4.c\<close> work on
  \<^verbatim>\<open>uint8_t data[8]\<close> payloads. A payload is a list of bytes; every function reads or
  writes the indices 0..7 only, and the C contract is that the list has 8 entries.
  A pointer is an \<open>option\<close>: \<open>None\<close> is \<^verbatim>\<open>NULL\<close>. A function that writes through a
  pointer returns, next to its C return value, the object behind that pointer after
  the call; the object before the call is an argument, so that a field the function
  does not assign keeps what the caller's memory held.

  A C \<^verbatim>\<open>enum\<close> object holds any value of its underlying integer type and the decoders
  store arbitrary masked bit patterns by a cast, so the enum types are integers with
  named constants. A \<^verbatim>\<open>uint8_t\<close> operand of \<^verbatim>\<open><<\<close>, \<^verbatim>\<open>>>\<close>, \<^verbatim>\<open>&\<close>, \<^verbatim>\<open>|\<close> is promoted to
  \<^verbatim>\<open>int\<close> first (\<open>promote\<close>); all values that occur are below \<open>2 ^ 16\<close>.

  A \<^verbatim>\<open>float\<close> that a decoder computes from a 16-bit raw value is a real number
  (\<open>c_float\<close>), the exact value of the expression. A \<^verbatim>\<open>float\<close> that the caller hands to
  the encoder is a \<open>float32\<close>: a real number, an infinity or NaN.
\<close>

type_synonym uint8_t = "8 word"
type_synonym uint16_t = "16 word"
type_synonym c_int = "32 word"
type_synonym c_float = real

definition promote :: "uint8_t \<Rightarrow> c_int" where
  "promote b = ucast b"

text \<open>\<^verbatim>\<open>(data[i] << 8) | data[j]\<close> stored into a \<^verbatim>\<open>uint16_t\<close>.\<close>

definition shl8_or :: "uint8_t \<Rightarrow> uint8_t \<Rightarrow> uint16_t" where
  "shl8_or hi lo = ucast (push_bit 8 (promote hi) OR promote lo)"

text \<open>\<^verbatim>\<open>(data[i] & mask) != 0\<close>.\<close>

definition mask_set :: "uint8_t \<Rightarrow> c_int \<Rightarrow> bool" where
  "mask_set b m = (promote b AND m \<noteq> 0)"

text \<open>\<^verbatim>\<open>memset(data, v, n)\<close> on a byte buffer.\<close>

definition memset_buf :: "uint8_t list \<Rightarrow> uint8_t \<Rightarrow> nat \<Rightarrow> uint8_t list" where
  "memset_buf data v n = replicate (min n (length data)) v @ drop n data"

text \<open>\<^verbatim>\<open>memcpy(dst, src, n)\<close> on byte buffers.\<close>

definition memcpy_buf :: "uint8_t list \<Rightarrow> uint8_t list \<Rightarrow> nat \<Rightarrow> uint8_t list" where
  "memcpy_buf dst src n = take (min n (length dst)) (take n src) @ drop n dst"

definition uint16_to_float :: "uint16_t \<Rightarrow> c_float" where
  "uint16_to_float r = real (unat r)"

section \<open>Single-precision arithmetic of the encoder\<close>

text \<open>
  The encoder compares its \<^verbatim>\<open>float\<close> arguments with constants, multiplies them by 10
  and casts the product to \<^verbatim>\<open>uint16_t\<close>. The operations are those of IEEE 754
  binary32, evaluated in single precision: a comparison with NaN is false, and a product
  is the exact product rounded to the nearest value with a 24-bit significand, ties to
  the even significand (\<open>float32_round\<close>), or an infinity when that value is \<open>2 ^ 128\<close> or
  more in magnitude. The sign of a zero is not represented; no operation here reads it.

  \<open>float32_ulp_exp x\<close> is the exponent of the unit in the last place of the binade of \<open>x\<close>:
  \<open>e - 23\<close> for \<open>2 ^ e \<le> \<bar>x\<bar> < 2 ^ (e + 1)\<close> with \<open>e \<ge> -126\<close>, and \<open>-149\<close> below
  (subnormal values). It is read off the bit length of \<open>\<lfloor>\<bar>x\<bar> * 2 ^ 149\<rfloor>\<close>.
\<close>

datatype float32 = Finite real | PlusInfinity | MinusInfinity | NaN

fun bit_length :: "nat \<Rightarrow> nat" where
  "bit_length n = (if n = 0 then 0 else Suc (bit_length (n div 2)))"

declare bit_length.simps [simp del]

definition pow2 :: "int \<Rightarrow> real" where
  "pow2 e = (if 0 \<le> e then 2 ^ nat e else 1 / 2 ^ nat (- e))"

definition round_half_even :: "real \<Rightarrow> int" where
  "round_half_even y =
     (let f = \<lfloor>y\<rfloor>; r = y - of_int f
      in if r < 1 / 2 then f else if 1 / 2 < r then f + 1 else if even f then f else f + 1)"

definition float32_ulp_exp :: "real \<Rightarrow> int" where
  "float32_ulp_exp x = max 0 (int (bit_length (nat \<lfloor>\<bar>x\<bar> * 2 ^ 149\<rfloor>)) - 24) - 149"

definition float32_round :: "real \<Rightarrow> real" where
  "float32_round x =
     (let u = pow2 (float32_ulp_exp x) in of_int (round_half_even (x / u)) * u)"

definition float32_of_real :: "real \<Rightarrow> float32" where
  "float32_of_real x =
     (let r = float32_round x
      in if \<bar>r\<bar> < 2 ^ 128 then Finite r else if 0 < x then PlusInfinity else MinusInfinity)"

text \<open>\<^verbatim>\<open>a < b\<close> and \<^verbatim>\<open>a > b\<close> on floats.\<close>

fun float_lt :: "float32 \<Rightarrow> float32 \<Rightarrow> bool" where
  "float_lt NaN b = False"
| "float_lt a NaN = False"
| "float_lt (Finite x) (Finite y) = (x < y)"
| "float_lt a MinusInfinity = False"
| "float_lt MinusInfinity b = True"
| "float_lt PlusInfinity b = False"
| "float_lt (Finite x) PlusInfinity = True"

definition float_gt :: "float32 \<Rightarrow> float32 \<Rightarrow> bool" where
  "float_gt a b = float_lt b a"

fun float_is_zero :: "float32 \<Rightarrow> bool" where
  "float_is_zero (Finite x) = (x = 0)"
| "float_is_zero v = False"

fun float_is_negative :: "float32 \<Rightarrow> bool" where
  "float_is_negative (Finite x) = (x < 0)"
| "float_is_negative MinusInfinity = True"
| "float_is_negative v = False"

text \<open>\<^verbatim>\<open>a * b\<close> on floats.\<close>

fun float_mul :: "float32 \<Rightarrow> float32 \<Rightarrow> float32" where
  "float_mul NaN b = NaN"
| "float_mul a NaN = NaN"
| "float_mul (Finite x) (Finite y) = float32_of_real (x * y)"
| "float_mul a b =
     (if float_is_zero a \<or> float_is_zero b then NaN
      else if float_is_negative a = float_is_negative b then PlusInfinity
      else MinusInfinity)"

text \<open>
  The cast \<^verbatim>\<open>(uint16_t) x\<close> of a float discards the fractional part (\<open>c_trunc\<close>). Where
  the integral part is not in 0..65535, and for an infinity or NaN, C leaves the
  conversion undefined. The model gives the conversion a parameter \<open>oor\<close>, the 16-bit
  result that the platform happens to produce for such a value; a statement that holds
  for every \<open>oor\<close> does not depend on it.
\<close>

definition c_trunc :: "real \<Rightarrow> int" where
  "c_trunc x = (if 0 \<le> x then \<lfloor>x\<rfloor> else \<lceil>x\<rceil>)"

definition float_to_uint16 :: "(float32 \<Rightarrow> uint16_t) \<Rightarrow> float32 \<Rightarrow> uint16_t" where
  "float_to_uint16 oor v =
     (case v of
        Finite x \<Rightarrow>
          if 0 \<le> c_trunc x \<and> c_trunc x \<le> 65535 then word_of_int (c_trunc x) else oor v
      | _ \<Rightarrow> oor v)"

text \<open>
  One conversion that machines provide: saturate to an unsigned 32-bit integer, NaN and
  plus infinity giving the largest one, and keep the low 16 bits.
\<close>

definition saturating_cast :: "float32 \<Rightarrow> uint16_t" where
  "saturating_cast v =
     (case v of
        Finite x \<Rightarrow> word_of_int (min 4294967295 (max 0 (c_trunc x)))
      | PlusInfinity \<Rightarrow> 0xFFFF
      | MinusInfinity \<Rightarrow> 0
      | NaN \<Rightarrow> 0xFFFF)"

text \<open>
  Following the specification ("clamps the input to the documented physical range"): the
  number of the range nearest to the input. NaN is not a number and has none.
\<close>

definition clamp_number :: "real \<Rightarrow> real \<Rightarrow> float32 \<Rightarrow> real option" where
  "clamp_number lo hi v =
     (case v of
        Finite x \<Rightarrow> Some (max lo (min hi x))
      | PlusInfinity \<Rightarrow> Some hi
      | MinusInfinity \<Rightarrow> Some lo
      | NaN \<Rightarrow> None)"

section \<open>Level 1: control and real-time messages\<close>

record CanPacket_Ctl_t =
  can_enable :: bool
  led3_enable :: bool
  iac_max_A :: float32
  vout_max_V :: float32
  iout_max_A :: float32

record CanPacket_Stat_t =
  power_enable :: bool
  error_latch :: bool
  warn_limit :: bool
  lim_temp :: bool
  warning_hv :: bool
  bulks :: bool

record CanPacket_Act1_t =
  iac_A :: c_float
  temp_C :: c_float
  vout_V :: c_float
  iout_A :: c_float

record CanPacket_Act2_t =
  temp_loglv_C :: c_float
  ac_power_kW :: c_float
  prox_limit_A :: c_float
  pilot_limit_A :: c_float

record CanPacket_Tst1_t =
  ack :: bool
  pr_compl :: bool
  pwr_ok :: bool
  vout_ok :: bool
  neutral :: bool
  led3 :: bool
  led618 :: bool
  ovp :: bool
  conn_open :: bool
  ther_fail :: bool
  rx618_fail :: bool
  bulk1_fail :: bool
  bulk2_fail :: bool
  bulk3_fail :: bool
  pump_on :: bool
  fan_on :: bool
  hv_rx_fail :: bool
  cooling_fail :: bool
  rx619_fail :: bool
  neutro1 :: bool
  neutro2 :: bool
  three_phase :: bool
  iac_fail :: bool
  ignition :: bool
  lv_battery_np :: bool
  prox_ok :: bool
  pilot_ok :: bool
  s2_ok :: bool
  cnt_hours :: uint16_t

text \<open>
  The three conversions. In \<^verbatim>\<open>voltage_V * 10\<close> the integer constant is converted to
  \<^verbatim>\<open>10.0f\<close> and the product is a single-precision product.
\<close>

definition Voltage_ToRawCan :: "(float32 \<Rightarrow> uint16_t) \<Rightarrow> float32 \<Rightarrow> uint16_t" where
  "Voltage_ToRawCan oor voltage_V =
     (let voltage_V = (if float_lt voltage_V (Finite 0) then Finite 0 else voltage_V);
          voltage_V = (if float_gt voltage_V (Finite 10000) then Finite 10000 else voltage_V)
      in float_to_uint16 oor (float_mul voltage_V (Finite 10)))"

definition CurrentOut_ToRawCan :: "(float32 \<Rightarrow> uint16_t) \<Rightarrow> float32 \<Rightarrow> uint16_t" where
  "CurrentOut_ToRawCan oor current_A =
     (let current_A = (if float_lt current_A (Finite 0) then Finite 0 else current_A);
          current_A = (if float_gt current_A (Finite 1500) then Finite 1500 else current_A)
      in float_to_uint16 oor (float_mul current_A (Finite 10)))"

definition CurrentAC_ToRawCAN :: "(float32 \<Rightarrow> uint16_t) \<Rightarrow> float32 \<Rightarrow> uint16_t" where
  "CurrentAC_ToRawCAN oor current_A =
     (let current_A = (if float_lt current_A (Finite 0) then Finite 0 else current_A);
          current_A = (if float_gt current_A (Finite 500) then Finite 500 else current_A)
      in float_to_uint16 oor (float_mul current_A (Finite 10)))"

text \<open>\<^verbatim>\<open>(uint8_t)((raw >> 8) & 0xFF)\<close> and \<^verbatim>\<open>(uint8_t)(raw & 0xFF)\<close> of a \<^verbatim>\<open>uint16_t\<close>.\<close>

definition msb_of :: "uint16_t \<Rightarrow> uint8_t" where
  "msb_of raw = ucast (drop_bit 8 (ucast raw :: c_int) AND 0xFF)"

definition lsb_of :: "uint16_t \<Rightarrow> uint8_t" where
  "lsb_of raw = ucast ((ucast raw :: c_int) AND 0xFF)"

definition CanBus_CreatePacket_Ctl ::
  "(float32 \<Rightarrow> uint16_t) \<Rightarrow> CanPacket_Ctl_t option \<Rightarrow> uint8_t list option
     \<Rightarrow> bool \<times> uint8_t list option" where
  "CanBus_CreatePacket_Ctl oor ctl data =
     (if ctl = None \<or> data = None then (False, data)
      else
        let c = the ctl;
            d = memset_buf (the data) 0 8;
            d = d[0 := 0x00];
            d = (if can_enable c then d[0 := d ! 0 OR 0x80] else d);
            d = (if led3_enable c then d[0 := d ! 0 OR 0x08] else d);
            iac_raw = CurrentAC_ToRawCAN oor (iac_max_A c);
            d = d[1 := msb_of iac_raw];
            d = d[2 := lsb_of iac_raw];
            vout_raw = Voltage_ToRawCan oor (vout_max_V c);
            d = d[3 := msb_of vout_raw];
            d = d[4 := lsb_of vout_raw];
            iout_raw = CurrentOut_ToRawCan oor (iout_max_A c);
            d = d[5 := msb_of iout_raw];
            d = d[6 := lsb_of iout_raw];
            d = d[7 := 0x00]
        in (True, Some d))"

definition CanBus_CreatePacket_Ctl_Simple ::
  "(float32 \<Rightarrow> uint16_t) \<Rightarrow> bool \<Rightarrow> bool \<Rightarrow> float32 \<Rightarrow> float32 \<Rightarrow> float32
     \<Rightarrow> uint8_t list option \<Rightarrow> bool \<times> uint8_t list option" where
  "CanBus_CreatePacket_Ctl_Simple oor can_enable' led3_enable' iac_max_A' vout_max_V' iout_max_A'
       data =
     CanBus_CreatePacket_Ctl oor
       (Some \<lparr>can_enable = can_enable', led3_enable = led3_enable', iac_max_A = iac_max_A',
              vout_max_V = vout_max_V', iout_max_A = iout_max_A'\<rparr>) data"

definition CanBus_DecodePacket_Stat ::
  "uint8_t list option \<Rightarrow> CanPacket_Stat_t option \<Rightarrow> bool \<times> CanPacket_Stat_t option" where
  "CanBus_DecodePacket_Stat data stat =
     (if stat = None \<or> data = None then (False, stat)
      else
        let d = the data;
            s = the stat;
            s = s\<lparr>power_enable := mask_set (d ! 0) 0x80\<rparr>;
            s = s\<lparr>error_latch := mask_set (d ! 0) 0x40\<rparr>;
            s = s\<lparr>warn_limit := mask_set (d ! 0) 0x20\<rparr>;
            s = s\<lparr>lim_temp := mask_set (d ! 0) 0x08\<rparr>;
            s = s\<lparr>warning_hv := mask_set (d ! 0) 0x02\<rparr>;
            s = s\<lparr>bulks := mask_set (d ! 0) 0x01\<rparr>
        in (True, Some s))"

definition CanBus_DecodePacket_Act1 ::
  "uint8_t list option \<Rightarrow> CanPacket_Act1_t option \<Rightarrow> bool \<times> CanPacket_Act1_t option" where
  "CanBus_DecodePacket_Act1 data act1 =
     (if act1 = None \<or> data = None then (False, act1)
      else
        let d = the data;
            a = the act1;
            iac_raw = shl8_or (d ! 0) (d ! 1);
            temp_raw = shl8_or (d ! 2) (d ! 3);
            vout_raw = shl8_or (d ! 4) (d ! 5);
            iout_raw = shl8_or (d ! 6) (d ! 7);
            a = a\<lparr>iac_A := uint16_to_float iac_raw / 10.0\<rparr>;
            a = a\<lparr>temp_C := (uint16_to_float temp_raw * 0.005188) - 40.0\<rparr>;
            a = a\<lparr>vout_V := uint16_to_float vout_raw / 10.0\<rparr>;
            a = a\<lparr>iout_A := uint16_to_float iout_raw / 10.0\<rparr>
        in (True, Some a))"

definition CanBus_DecodePacket_Act2 ::
  "uint8_t list option \<Rightarrow> CanPacket_Act2_t option \<Rightarrow> bool \<times> CanPacket_Act2_t option" where
  "CanBus_DecodePacket_Act2 data act2 =
     (if act2 = None \<or> data = None then (False, act2)
      else
        let d = the data;
            a = the act2;
            temp_raw = shl8_or (d ! 0) (d ! 1);
            power_raw = shl8_or (d ! 2) (d ! 3);
            prox_raw = shl8_or (d ! 4) (d ! 5);
            pilot_raw = shl8_or (d ! 6) (d ! 7);
            a = a\<lparr>temp_loglv_C := (uint16_to_float temp_raw * 0.005188) - 40.0\<rparr>;
            a = a\<lparr>ac_power_kW := uint16_to_float power_raw * 0.01\<rparr>;
            a = a\<lparr>prox_limit_A := uint16_to_float prox_raw / 10.0\<rparr>;
            a = a\<lparr>pilot_limit_A := uint16_to_float pilot_raw / 10.0\<rparr>
        in (True, Some a))"

definition CanBus_DecodePacket_Tst1 ::
  "uint8_t list option \<Rightarrow> CanPacket_Tst1_t option \<Rightarrow> bool \<times> CanPacket_Tst1_t option" where
  "CanBus_DecodePacket_Tst1 data tst =
     (if tst = None \<or> data = None then (False, tst)
      else
        let d = the data;
            t = the tst;
            t = t\<lparr>ack := mask_set (d ! 0) 0x80\<rparr>;
            t = t\<lparr>pr_compl := mask_set (d ! 0) 0x40\<rparr>;
            t = t\<lparr>pwr_ok := mask_set (d ! 0) 0x20\<rparr>;
            t = t\<lparr>vout_ok := mask_set (d ! 0) 0x10\<rparr>;
            t = t\<lparr>neutral := mask_set (d ! 0) 0x08\<rparr>;
            t = t\<lparr>led3 := mask_set (d ! 0) 0x04\<rparr>;
            t = t\<lparr>led618 := mask_set (d ! 0) 0x02\<rparr>;
            t = t\<lparr>ovp := mask_set (d ! 1) 0x80\<rparr>;
            t = t\<lparr>conn_open := mask_set (d ! 1) 0x40\<rparr>;
            t = t\<lparr>ther_fail := mask_set (d ! 1) 0x04\<rparr>;
            t = t\<lparr>rx618_fail := mask_set (d ! 1) 0x01\<rparr>;
            t = t\<lparr>bulk1_fail := mask_set (d ! 2) 0x80\<rparr>;
            t = t\<lparr>bulk2_fail := mask_set (d ! 2) 0x40\<rparr>;
            t = t\<lparr>bulk3_fail := mask_set (d ! 2) 0x20\<rparr>;
            t = t\<lparr>pump_on := mask_set (d ! 2) 0x10\<rparr>;
            t = t\<lparr>fan_on := mask_set (d ! 2) 0x08\<rparr>;
            t = t\<lparr>hv_rx_fail := mask_set (d ! 2) 0x04\<rparr>;
            t = t\<lparr>cooling_fail := mask_set (d ! 2) 0x02\<rparr>;
            t = t\<lparr>rx619_fail := mask_set (d ! 2) 0x01\<rparr>;
            t = t\<lparr>neutro1 := mask_set (d ! 3) 0x80\<rparr>;
            t = t\<lparr>neutro2 := mask_set (d ! 3) 0x40\<rparr>;
            t = t\<lparr>three_phase := mask_set (d ! 3) 0x20\<rparr>;
            t = t\<lparr>iac_fail := mask_set (d ! 3) 0x04\<rparr>;
            t = t\<lparr>ignition := mask_set (d ! 3) 0x02\<rparr>;
            t = t\<lparr>lv_battery_np := mask_set (d ! 3) 0x01\<rparr>;
            t = t\<lparr>prox_ok := mask_set (d ! 4) 0x80\<rparr>;
            t = t\<lparr>pilot_ok := mask_set (d ! 4) 0x20\<rparr>;
            t = t\<lparr>s2_ok := mask_set (d ! 4) 0x08\<rparr>;
            t = t\<lparr>cnt_hours := shl8_or (d ! 6) (d ! 7)\<rparr>
        in (True, Some t))"

text \<open>
  \<^verbatim>\<open>CanBus_Debug_PrintCtl\<close> reads a Control frame back and prints the two flags, the
  three physical values and their raw integers. The model returns the printed values.
\<close>

record Ctl_printout =
  print_can_enable :: bool
  print_led3 :: bool
  print_iac_raw :: uint16_t
  print_iac :: c_float
  print_vout_raw :: uint16_t
  print_vout :: c_float
  print_iout_raw :: uint16_t
  print_iout :: c_float

definition CanBus_Debug_PrintCtl :: "uint8_t list \<Rightarrow> Ctl_printout" where
  "CanBus_Debug_PrintCtl data =
     (let can_enable' = mask_set (data ! 0) 0x80;
          led3' = mask_set (data ! 0) 0x08;
          iac_raw = shl8_or (data ! 1) (data ! 2);
          iac = uint16_to_float iac_raw / 10.0;
          vout_raw = shl8_or (data ! 3) (data ! 4);
          vout = uint16_to_float vout_raw / 10.0;
          iout_raw = shl8_or (data ! 5) (data ! 6);
          iout = uint16_to_float iout_raw / 10.0
      in \<lparr>print_can_enable = can_enable', print_led3 = led3',
          print_iac_raw = iac_raw, print_iac = iac,
          print_vout_raw = vout_raw, print_vout = vout,
          print_iout_raw = iout_raw, print_iout = iout\<rparr>)"

section \<open>Level 2: on-demand diagnostic messages\<close>

type_synonym RequestType_t = c_int
type_synonym FailureLevel_t = c_int
type_synonym FrameType_t = c_int

definition REQ_FAULT_INACTIVE :: RequestType_t where "REQ_FAULT_INACTIVE = 0x1C"
definition REQ_FAULT_ACTIVE :: RequestType_t where "REQ_FAULT_ACTIVE = 0x1D"
definition REQ_SOFTWARE :: RequestType_t where "REQ_SOFTWARE = 0x1E"
definition REQ_SERIAL_NUMBER :: RequestType_t where "REQ_SERIAL_NUMBER = 0x1F"

definition FAILURE_WARNING :: FailureLevel_t where "FAILURE_WARNING = 1"
definition FAILURE_SOFT :: FailureLevel_t where "FAILURE_SOFT = 10"
definition FAILURE_HARD :: FailureLevel_t where "FAILURE_HARD = 11"

definition FRAME_SINGLE :: FrameType_t where "FRAME_SINGLE = 1"
definition FRAME_MULTI :: FrameType_t where "FRAME_MULTI = 2"

record CanPacket_Fault_t =
  frame_type :: FrameType_t
  total_errors :: uint8_t
  frame_number :: uint8_t
  fault_code :: uint8_t
  occurrence :: uint8_t
  failure_level :: FailureLevel_t
  first_time_h :: uint16_t
  last_time_h :: uint16_t

record CanPacket_Software_t =
  version :: "uint8_t list"

record CanPacket_SerialNumber_t =
  serial :: "uint8_t list"

definition CanBus_CreatePacket_Req ::
  "bool \<Rightarrow> RequestType_t \<Rightarrow> uint8_t list option \<Rightarrow> bool \<times> uint8_t list option" where
  "CanBus_CreatePacket_Req enable request_type data =
     (if data = None then (False, data)
      else
        let d = memset_buf (the data) 0 8;
            d = d[0 := (if enable then 0x80 else 0x00)];
            d = d[1 := 0x00];
            d = d[2 := 0x06];
            d = d[3 := ucast request_type]
        in (True, Some d))"

definition CanBus_Request_FaultActive :: "uint8_t list option \<Rightarrow> bool \<times> uint8_t list option" where
  "CanBus_Request_FaultActive data = CanBus_CreatePacket_Req True REQ_FAULT_ACTIVE data"

definition CanBus_Request_FaultInactive :: "uint8_t list option \<Rightarrow> bool \<times> uint8_t list option" where
  "CanBus_Request_FaultInactive data = CanBus_CreatePacket_Req True REQ_FAULT_INACTIVE data"

definition CanBus_Request_Software :: "uint8_t list option \<Rightarrow> bool \<times> uint8_t list option" where
  "CanBus_Request_Software data = CanBus_CreatePacket_Req True REQ_SOFTWARE data"

definition CanBus_Request_SerialNumber :: "uint8_t list option \<Rightarrow> bool \<times> uint8_t list option" where
  "CanBus_Request_SerialNumber data = CanBus_CreatePacket_Req True REQ_SERIAL_NUMBER data"

text \<open>
  The chain of \<^verbatim>\<open>if\<close> / \<^verbatim>\<open>else if\<close> on \<^verbatim>\<open>level_bits\<close> has no final \<^verbatim>\<open>else\<close>: with
  \<^verbatim>\<open>level_bits == 0x01\<close> no branch runs and \<^verbatim>\<open>fault->failure_level\<close> is not written.
\<close>

definition CanBus_DecodePacket_Fault ::
  "uint8_t list option \<Rightarrow> CanPacket_Fault_t option \<Rightarrow> bool \<times> CanPacket_Fault_t option" where
  "CanBus_DecodePacket_Fault data fault =
     (if fault = None \<or> data = None then (False, fault)
      else
        let d = the data;
            f = the fault;
            f = f\<lparr>frame_type := drop_bit 6 (promote (d ! 0)) AND 0x03\<rparr>;
            f = f\<lparr>total_errors := ucast (promote (d ! 0) AND 0x3F)\<rparr>;
            f = f\<lparr>frame_number := ucast (drop_bit 2 (promote (d ! 1)) AND 0x3F)\<rparr>;
            f = f\<lparr>fault_code := d ! 2\<rparr>;
            f = f\<lparr>occurrence := ucast (drop_bit 2 (promote (d ! 3)) AND 0x3F)\<rparr>;
            level_bits = (ucast (promote (d ! 3) AND 0x03) :: uint8_t);
            f = (if level_bits = 0x00 then f\<lparr>failure_level := FAILURE_WARNING\<rparr>
                 else if level_bits = 0x02 then f\<lparr>failure_level := FAILURE_SOFT\<rparr>
                 else if level_bits = 0x03 then f\<lparr>failure_level := FAILURE_HARD\<rparr>
                 else f);
            f = f\<lparr>first_time_h := shl8_or (d ! 4) (d ! 5)\<rparr>;
            f = f\<lparr>last_time_h := shl8_or (d ! 6) (d ! 7)\<rparr>
        in (True, Some f))"

definition CanBus_DecodePacket_Software ::
  "uint8_t list option \<Rightarrow> CanPacket_Software_t option \<Rightarrow> bool \<times> CanPacket_Software_t option" where
  "CanBus_DecodePacket_Software data sw =
     (if sw = None \<or> data = None then (False, sw)
      else
        let s = the sw;
            s = s\<lparr>version := memcpy_buf (version s) (the data) 8\<rparr>;
            s = s\<lparr>version := (version s)[8 := 0]\<rparr>
        in (True, Some s))"

definition CanBus_DecodePacket_SerialNumber ::
  "uint8_t list option \<Rightarrow> CanPacket_SerialNumber_t option
     \<Rightarrow> bool \<times> CanPacket_SerialNumber_t option" where
  "CanBus_DecodePacket_SerialNumber data sn =
     (if sn = None \<or> data = None then (False, sn)
      else
        let s = the sn;
            s = s\<lparr>serial := memcpy_buf (serial s) (the data) 8\<rparr>;
            s = s\<lparr>serial := (serial s)[8 := 0]\<rparr>
        in (True, Some s))"

definition CanBus_GetFailureLevelStr :: "FailureLevel_t \<Rightarrow> string" where
  "CanBus_GetFailureLevelStr level =
     (if level = FAILURE_WARNING then ''Warning''
      else if level = FAILURE_SOFT then ''Soft Failure''
      else if level = FAILURE_HARD then ''Hard Failure''
      else ''Unknown'')"





section \<open>Level 3: service messages\<close>

record CanPacket_Act3_t =
  fan_voltage_V :: c_float
  iacm1_A :: c_float
  iacm2_A :: c_float
  iacm3_A :: c_float

record CanPacket_Temp_t =
  temp_loghv_C :: c_float
  temp_power1_C :: c_float
  temp_power2_C :: c_float
  temp_power3_C :: c_float

record CanPacket_Stst1_t =
  pfc_enable :: bool
  log_temp_high :: bool
  log_temp_low :: bool
  uvlo_log :: bool
  ther_low_fail :: bool
  rx618_fail :: bool
  bulk1_fail :: bool
  bulk2_fail :: bool
  bulk3_fail :: bool
  cooling_fail1 :: bool
  cooling_fail2 :: bool
  cooling_fail3 :: bool
  uvlo_log_lv :: bool
  bat_over :: bool
  bat_under :: bool

record CanPacket_Act4_t =
  temp_logfan_C :: c_float
  iout1_raw :: uint16_t
  iout2_raw :: uint16_t
  iout3_raw :: uint16_t

definition CanBus_DecodePacket_Act3 ::
  "uint8_t list option \<Rightarrow> CanPacket_Act3_t option \<Rightarrow> bool \<times> CanPacket_Act3_t option" where
  "CanBus_DecodePacket_Act3 data act3 =
     (if act3 = None \<or> data = None then (False, act3)
      else
        let d = the data;
            a = the act3;
            fan_raw = shl8_or (d ! 0) (d ! 1);
            a = a\<lparr>fan_voltage_V := uint16_to_float fan_raw * 0.1\<rparr>;
            iacm1_raw = shl8_or (d ! 2) (d ! 3);
            a = a\<lparr>iacm1_A := uint16_to_float iacm1_raw * 0.1\<rparr>;
            iacm2_raw = shl8_or (d ! 4) (d ! 5);
            a = a\<lparr>iacm2_A := uint16_to_float iacm2_raw * 0.1\<rparr>;
            iacm3_raw = shl8_or (d ! 6) (d ! 7);
            a = a\<lparr>iacm3_A := uint16_to_float iacm3_raw * 0.1\<rparr>
        in (True, Some a))"

definition CanBus_DecodePacket_Temp ::
  "uint8_t list option \<Rightarrow> CanPacket_Temp_t option \<Rightarrow> bool \<times> CanPacket_Temp_t option" where
  "CanBus_DecodePacket_Temp data temp =
     (if temp = None \<or> data = None then (False, temp)
      else
        let d = the data;
            t = the temp;
            loghv_raw = shl8_or (d ! 0) (d ! 1);
            t = t\<lparr>temp_loghv_C := (uint16_to_float loghv_raw * 0.005188) - 40.0\<rparr>;
            power1_raw = shl8_or (d ! 2) (d ! 3);
            t = t\<lparr>temp_power1_C := (uint16_to_float power1_raw * 0.005188) - 40.0\<rparr>;
            power2_raw = shl8_or (d ! 4) (d ! 5);
            t = t\<lparr>temp_power2_C := (uint16_to_float power2_raw * 0.005188) - 40.0\<rparr>;
            power3_raw = shl8_or (d ! 6) (d ! 7);
            t = t\<lparr>temp_power3_C := (uint16_to_float power3_raw * 0.005188) - 40.0\<rparr>
        in (True, Some t))"

definition CanBus_DecodePacket_Stst1 ::
  "uint8_t list option \<Rightarrow> CanPacket_Stst1_t option \<Rightarrow> bool \<times> CanPacket_Stst1_t option" where
  "CanBus_DecodePacket_Stst1 data stst =
     (if stst = None \<or> data = None then (False, stst)
      else
        let d = the data;
            s = the stst;
            s = s\<lparr>pfc_enable := mask_set (d ! 0) (push_bit 2 1)\<rparr>;
            s = s\<lparr>log_temp_high := mask_set (d ! 1) (push_bit 5 1)\<rparr>;
            s = s\<lparr>log_temp_low := mask_set (d ! 1) (push_bit 4 1)\<rparr>;
            s = s\<lparr>uvlo_log := mask_set (d ! 1) (push_bit 3 1)\<rparr>;
            s = s\<lparr>ther_low_fail := mask_set (d ! 1) (push_bit 2 1)\<rparr>;
            s = s\<lparr>rx618_fail := mask_set (d ! 1) (push_bit 0 1)\<rparr>;
            s = s\<lparr>bulk1_fail := mask_set (d ! 2) (push_bit 7 1)\<rparr>;
            s = s\<lparr>bulk2_fail := mask_set (d ! 2) (push_bit 6 1)\<rparr>;
            s = s\<lparr>bulk3_fail := mask_set (d ! 2) (push_bit 5 1)\<rparr>;
            s = s\<lparr>cooling_fail1 := mask_set (d ! 2) (push_bit 4 1)\<rparr>;
            s = s\<lparr>cooling_fail2 := mask_set (d ! 2) (push_bit 3 1)\<rparr>;
            s = s\<lparr>cooling_fail3 := mask_set (d ! 2) (push_bit 2 1)\<rparr>;
            s = s\<lparr>uvlo_log_lv := mask_set (d ! 3) (push_bit 3 1)\<rparr>;
            s = s\<lparr>bat_over := mask_set (d ! 3) (push_bit 1 1)\<rparr>;
            s = s\<lparr>bat_under := mask_set (d ! 3) (push_bit 0 1)\<rparr>
        in (True, Some s))"

definition CanBus_DecodePacket_Act4 ::
  "uint8_t list option \<Rightarrow> CanPacket_Act4_t option \<Rightarrow> bool \<times> CanPacket_Act4_t option" where
  "CanBus_DecodePacket_Act4 data act4 =
     (if act4 = None \<or> data = None then (False, act4)
      else
        let d = the data;
            a = the act4;
            temp_raw = shl8_or (d ! 0) (d ! 1);
            a = a\<lparr>temp_logfan_C := (uint16_to_float temp_raw * 0.005188) - 40.0\<rparr>;
            a = a\<lparr>iout1_raw := shl8_or (d ! 2) (d ! 3)\<rparr>;
            a = a\<lparr>iout2_raw := shl8_or (d ! 4) (d ! 5)\<rparr>;
            a = a\<lparr>iout3_raw := shl8_or (d ! 6) (d ! 7)\<rparr>
        in (True, Some a))"

section \<open>Level 4: charger configuration message\<close>

type_synonym BaudrateType_t = c_int
type_synonym IdType_t = c_int
type_synonym IacControlType_t = c_int
type_synonym RangeType_t = c_int
type_synonym EVCModelType_t = c_int
type_synonym IDSettingType_t = c_int

definition BAUDRATE_500KBIT :: BaudrateType_t where "BAUDRATE_500KBIT = 0"
definition BAUDRATE_250KBIT :: BaudrateType_t where "BAUDRATE_250KBIT = 1"
definition BAUDRATE_125KBIT :: BaudrateType_t where "BAUDRATE_125KBIT = 2"
definition BAUDRATE_1MBIT :: BaudrateType_t where "BAUDRATE_1MBIT = 3"

definition ID_STANDARD_11BIT :: IdType_t where "ID_STANDARD_11BIT = 0"
definition ID_EXTENDED_29BIT :: IdType_t where "ID_EXTENDED_29BIT = 1"

definition IAC_NOT_CONTROLLED :: IacControlType_t where "IAC_NOT_CONTROLLED = 0"
definition IAC_SAEJ1772 :: IacControlType_t where "IAC_SAEJ1772 = 1"
definition IAC_EN61851 :: IacControlType_t where "IAC_EN61851 = 2"
definition IAC_ID618 :: IacControlType_t where "IAC_ID618 = 3"

definition RANGE_R4_EVO_USERS :: RangeType_t where "RANGE_R4_EVO_USERS = 0"
definition RANGE_R3 :: RangeType_t where "RANGE_R3 = 1"
definition RANGE_R2 :: RangeType_t where "RANGE_R2 = 2"
definition RANGE_R1 :: RangeType_t where "RANGE_R1 = 3"

definition EVC_EVO11K :: EVCModelType_t where "EVC_EVO11K = 0"
definition EVC_EVO22K :: EVCModelType_t where "EVC_EVO22K = 1"

definition ID_SINGLE_CHARGER :: IDSettingType_t where "ID_SINGLE_CHARGER = 0"
definition ID_RANGE_1_16 :: IDSettingType_t where "ID_RANGE_1_16 = 1"

record CanPacket_Tst2_t =
  baudrate :: BaudrateType_t
  id_type :: IdType_t
  iac_control :: IacControlType_t
  range :: RangeType_t
  three_phase :: bool
  slave :: bool
  evc_model :: EVCModelType_t
  id_setting :: IDSettingType_t
  air_cooler :: bool
  parallel_ctrl :: bool
  iacm_max_set_A :: c_float
  vout_max_set_V :: c_float
  iout_max_set_A :: c_float
  password :: uint8_t

definition CanBus_DecodePacket_Tst2 ::
  "uint8_t list option \<Rightarrow> CanPacket_Tst2_t option \<Rightarrow> bool \<times> CanPacket_Tst2_t option" where
  "CanBus_DecodePacket_Tst2 data tst2 =
     (if tst2 = None \<or> data = None then (False, tst2)
      else
        let d = the data;
            t = the tst2;
            t = t\<lparr>baudrate := drop_bit 6 (promote (d ! 0)) AND 0x03\<rparr>;
            t = t\<lparr>id_type := drop_bit 5 (promote (d ! 0)) AND 0x01\<rparr>;
            t = t\<lparr>iac_control := drop_bit 2 (promote (d ! 0)) AND 0x03\<rparr>;
            t = t\<lparr>range := promote (d ! 0) AND 0x03\<rparr>;
            t = t\<lparr>three_phase := mask_set (d ! 0) (push_bit 0 1)\<rparr>;
            t = t\<lparr>slave := mask_set (d ! 1) (push_bit 7 1)\<rparr>;
            t = t\<lparr>evc_model := drop_bit 6 (promote (d ! 1)) AND 0x01\<rparr>;
            t = t\<lparr>id_setting := drop_bit 2 (promote (d ! 1)) AND 0x0F\<rparr>;
            t = t\<lparr>parallel_ctrl := mask_set (d ! 1) (push_bit 1 1)\<rparr>;
            t = t\<lparr>air_cooler := mask_set (d ! 1) (push_bit 0 1)\<rparr>;
            t = t\<lparr>iacm_max_set_A := real (unat (d ! 2)) * 0.2\<rparr>;
            vout_raw = shl8_or (d ! 3) (d ! 4);
            t = t\<lparr>vout_max_set_V := uint16_to_float vout_raw * 0.1\<rparr>;
            iout_raw = shl8_or (d ! 5) (d ! 6);
            t = t\<lparr>iout_max_set_A := uint16_to_float iout_raw * 0.1\<rparr>;
            t = t\<lparr>password := d ! 7\<rparr>
        in (True, Some t))"

section \<open>Auxiliary facts\<close>

lemmas Fault_enum_defs =
  FAILURE_WARNING_def FAILURE_SOFT_def FAILURE_HARD_def FRAME_SINGLE_def FRAME_MULTI_def

lemmas Tst2_enum_defs = BAUDRATE_500KBIT_def ID_STANDARD_11BIT_def IAC_SAEJ1772_def
  RANGE_R4_EVO_USERS_def EVC_EVO11K_def ID_SINGLE_CHARGER_def

lemmas bit_helper_defs = promote_def shl8_or_def mask_set_def

lemmas Ctl_raw_defs = CurrentAC_ToRawCAN_def Voltage_ToRawCan_def CurrentOut_ToRawCan_def
  float_gt_def float32_of_real_def float_to_uint16_def c_trunc_def msb_of_def lsb_of_def

lemmas float32_round_defs =
  float32_round_def float32_ulp_exp_def bit_length.simps pow2_def round_half_even_def

subsection \<open>Buffers and words\<close>

lemma memset_buf_8: "memset_buf [b0, b1, b2, b3, b4, b5, b6, b7] v 8 = [v, v, v, v, v, v, v, v]"
  by (simp add: memset_buf_def numeral_eq_Suc)

lemma memset_buf_len8:
  "length buf = 8 \<Longrightarrow> memset_buf buf v 8 = [v, v, v, v, v, v, v, v]"
  by (simp add: memset_buf_def numeral_eq_Suc)

lemma byte_mask: "(0xFF :: c_int) = mask 8"
  by (simp add: mask_eq_exp_minus_1)

text \<open>Splitting a 16-bit raw value into two bytes and joining them again is the identity.\<close>

lemma shl8_or_msb_lsb: "shl8_or (msb_of w) (lsb_of w) = w"
  unfolding shl8_or_def msb_of_def lsb_of_def promote_def byte_mask
  by (rule bit_word_eqI) (auto simp add: bit_simps)

lemma uint16_to_float_le: "uint16_to_float w \<le> 65535"
proof -
  have "unat w < 65536" using unsigned_less [of w, where ?'a = nat] by simp
  then have "unat w \<le> 65535" by simp
  then have "real (unat w) \<le> real 65535" by (rule of_nat_mono)
  then show ?thesis by (simp add: uint16_to_float_def)
qed

lemma level_bits_cases:
  fixes b :: uint8_t
  defines "l \<equiv> (ucast (promote b AND 0x03) :: uint8_t)"
  shows "l = 0 \<or> l = 1 \<or> l = 2 \<or> l = 3"
proof -
  have "l = b AND 3"
    unfolding l_def promote_def by (rule bit_word_eqI) (auto simp add: bit_simps)
  moreover have "b AND 3 \<le> 3" by (rule word_and_le1)
  ultimately have "unat l \<le> 3" by (simp add: word_le_nat_alt)
  then consider "unat l = 0" | "unat l = 1" | "unat l = 2" | "unat l = 3" by arith
  then show ?thesis
  proof cases
    case 1
    then have "word_of_nat (unat l) = (word_of_nat 0 :: uint8_t)" by (simp only:)
    then show ?thesis by simp
  next
    case 2
    then have "word_of_nat (unat l) = (word_of_nat 1 :: uint8_t)" by (simp only:)
    then show ?thesis by simp
  next
    case 3
    then have "word_of_nat (unat l) = (word_of_nat 2 :: uint8_t)" by (simp only:)
    then show ?thesis by simp
  next
    case 4
    then have "word_of_nat (unat l) = (word_of_nat 3 :: uint8_t)" by (simp only:)
    then show ?thesis by simp
  qed
qed







subsection \<open>Rounding to single precision\<close>

text \<open>
  Below \<open>2 ^ 24\<close> in magnitude the unit in the last place is at most 1, so every integer
  there is representable and rounding never crosses one.
\<close>

lemma bit_length_le: "n < 2 ^ k \<Longrightarrow> bit_length n \<le> k"
proof (induction k arbitrary: n)
  case 0
  then show ?case by (simp add: bit_length.simps)
next
  case (Suc k)
  show ?case
  proof (cases "n = 0")
    case True
    then show ?thesis by (simp add: bit_length.simps)
  next
    case False
    from Suc.prems have "n div 2 < 2 ^ k" by simp
    then have "bit_length (n div 2) \<le> k" by (rule Suc.IH)
    with False show ?thesis by (subst bit_length.simps) simp
  qed
qed

lemma float32_ulp_exp_le_0:
  assumes "\<bar>x\<bar> < 2 ^ 24"
  shows "float32_ulp_exp x \<le> 0"
proof -
  have "\<bar>x\<bar> * 2 ^ 149 < 2 ^ 24 * 2 ^ 149" using assms by simp
  then have "\<bar>x\<bar> * 2 ^ 149 < 2 ^ 173" by simp
  then have "\<lfloor>\<bar>x\<bar> * 2 ^ 149\<rfloor> < 2 ^ 173" by (simp add: floor_less_iff)
  then have "nat \<lfloor>\<bar>x\<bar> * 2 ^ 149\<rfloor> < 2 ^ 173"
    by (simp add: nat_less_iff)
  then have "bit_length (nat \<lfloor>\<bar>x\<bar> * 2 ^ 149\<rfloor>) \<le> 173" by (rule bit_length_le)
  then show ?thesis by (simp add: float32_ulp_exp_def)
qed

lemma round_half_even_ge: "of_int k \<le> y \<Longrightarrow> k \<le> round_half_even y"
proof -
  assume "of_int k \<le> y"
  then have "k \<le> \<lfloor>y\<rfloor>" by (simp add: le_floor_iff)
  then show ?thesis by (auto simp add: round_half_even_def Let_def)
qed

lemma round_half_even_le: "y \<le> of_int k \<Longrightarrow> round_half_even y \<le> k"
proof -
  assume le: "y \<le> of_int k"
  then have f: "\<lfloor>y\<rfloor> \<le> k" by (simp add: floor_le_iff)
  show ?thesis
  proof (cases "\<lfloor>y\<rfloor> = k")
    case True
    then have "y = of_int k" using le by linarith
    then show ?thesis by (simp add: round_half_even_def Let_def)
  next
    case False
    with f have "\<lfloor>y\<rfloor> + 1 \<le> k" by simp
    then show ?thesis by (auto simp add: round_half_even_def Let_def)
  qed
qed

lemma float32_round_integer_bounds:
  assumes q: "float32_ulp_exp x \<le> 0"
  shows "of_int m \<le> x \<Longrightarrow> of_int m \<le> float32_round x"
    and "x \<le> of_int m \<Longrightarrow> float32_round x \<le> of_int m"
proof -
  define n where "n = nat (- float32_ulp_exp x)"
  have u: "pow2 (float32_ulp_exp x) = 1 / 2 ^ n"
    using q by (cases "float32_ulp_exp x = 0") (auto simp add: pow2_def n_def)
  have fl: "float32_round x = of_int (round_half_even (x * 2 ^ n)) / 2 ^ n"
    by (simp add: float32_round_def Let_def u)
  {
    assume "of_int m \<le> x"
    then have "of_int (m * 2 ^ n) \<le> x * 2 ^ n" by simp
    then have "m * 2 ^ n \<le> round_half_even (x * 2 ^ n)" by (rule round_half_even_ge)
    then have "of_int (m * 2 ^ n) \<le> (of_int (round_half_even (x * 2 ^ n)) :: real)"
      by (simp only: of_int_le_iff)
    then show "of_int m \<le> float32_round x"
      unfolding fl by (simp add: le_divide_eq)
  }
  {
    assume "x \<le> of_int m"
    then have "x * 2 ^ n \<le> of_int (m * 2 ^ n)" by simp
    then have "round_half_even (x * 2 ^ n) \<le> m * 2 ^ n" by (rule round_half_even_le)
    then have "(of_int (round_half_even (x * 2 ^ n)) :: real) \<le> of_int (m * 2 ^ n)"
      by (simp only: of_int_le_iff)
    then show "float32_round x \<le> of_int m"
      unfolding fl by (simp add: divide_le_eq)
  }
qed

lemma float32_round_of_int:
  assumes "\<bar>of_int m :: real\<bar> < 2 ^ 24"
  shows "float32_round (of_int m) = of_int m"
  using float32_round_integer_bounds [OF float32_ulp_exp_le_0 [OF assms], of m]
  by simp

lemma float32_round_between:
  assumes "0 \<le> x" "x \<le> of_int m" "of_int m < (2 ^ 24 :: real)"
  shows "0 \<le> float32_round x" "float32_round x \<le> of_int m"
    "of_int \<lfloor>x\<rfloor> \<le> float32_round x" "float32_round x \<le> of_int \<lfloor>x\<rfloor> + 1"
proof -
  have "\<bar>x\<bar> < 2 ^ 24" using assms by simp
  then have q: "float32_ulp_exp x \<le> 0" by (rule float32_ulp_exp_le_0)
  show "0 \<le> float32_round x"
    using float32_round_integer_bounds(1) [OF q, of 0] assms by simp
  show "float32_round x \<le> of_int m"
    using float32_round_integer_bounds(2) [OF q, of m] assms by simp
  show "of_int \<lfloor>x\<rfloor> \<le> float32_round x"
    using float32_round_integer_bounds(1) [OF q, of "\<lfloor>x\<rfloor>"] by simp
  have "x \<le> of_int (\<lfloor>x\<rfloor> + 1)" by linarith
  from float32_round_integer_bounds(2) [OF q this]
  show "float32_round x \<le> of_int \<lfloor>x\<rfloor> + 1" by simp
qed


lemma float32_of_real_small:
  assumes "0 \<le> x" "x \<le> of_int m" "of_int m < (2 ^ 24 :: real)"
  shows "float32_of_real x = Finite (float32_round x)"
proof -
  note b = float32_round_between(1,2) [OF assms]
  have "(2 :: real) ^ 24 < 2 ^ 128" by simp
  with b assms(3) have "\<bar>float32_round x\<bar> < 2 ^ 128" by linarith
  then show ?thesis by (simp add: float32_of_real_def Let_def)
qed

subsection \<open>The three setpoint conversions\<close>

lemma clamp_number_range:
  assumes "clamp_number lo hi v = Some a" "lo \<le> hi"
  shows "lo \<le> a \<and> a \<le> hi"
  using assms by (cases v) (auto simp add: clamp_number_def)

lemma clamp_steps:
  assumes "clamp_number lo hi v = Some a" "lo \<le> hi"
  shows "(let x = (if float_lt v (Finite lo) then Finite lo else v);
              x = (if float_gt x (Finite hi) then Finite hi else x)
          in x) = Finite a"
  using assms by (cases v) (auto simp add: clamp_number_def float_gt_def Let_def)

lemma scale_clamped:
  assumes "clamp_number 0 hi v = Some a" "0 \<le> hi" "hi * 10 \<le> of_int m" "of_int m < (2 ^ 24 :: real)"
  shows "float_to_uint16 oor
           (float_mul
              (if float_gt (if float_lt v (Finite 0) then Finite 0 else v) (Finite hi)
               then Finite hi else (if float_lt v (Finite 0) then Finite 0 else v))
              (Finite 10)) =
         float_to_uint16 oor (Finite (float32_round (a * 10)))"
proof -
  from clamp_number_range [OF assms(1,2)] have a: "0 \<le> a" "a \<le> hi" by simp_all
  then have "0 \<le> a * 10" "a * 10 \<le> of_int m" using assms(3) by simp_all
  from float32_of_real_small [OF this assms(4)]
  have "float_mul (Finite a) (Finite 10) = Finite (float32_round (a * 10))" by simp
  with clamp_steps [OF assms(1,2)] show ?thesis by (simp add: Let_def)
qed

lemma CurrentAC_clamped:
  assumes "clamp_number 0 500 v = Some a"
  shows "CurrentAC_ToRawCAN oor v = float_to_uint16 oor (Finite (float32_round (a * 10)))"
  unfolding CurrentAC_ToRawCAN_def Let_def
  by (rule scale_clamped [OF assms, where m = 5000]) simp_all

lemma Voltage_clamped:
  assumes "clamp_number 0 10000 v = Some a"
  shows "Voltage_ToRawCan oor v = float_to_uint16 oor (Finite (float32_round (a * 10)))"
  unfolding Voltage_ToRawCan_def Let_def
  by (rule scale_clamped [OF assms, where m = 100000]) simp_all

lemma CurrentOut_clamped:
  assumes "clamp_number 0 1500 v = Some a"
  shows "CurrentOut_ToRawCan oor v = float_to_uint16 oor (Finite (float32_round (a * 10)))"
  unfolding CurrentOut_ToRawCan_def Let_def
  by (rule scale_clamped [OF assms, where m = 15000]) simp_all

text \<open>Where the rounded product is within 0..65535 the cast is defined and truncates.\<close>

lemma float_to_uint16_in_range:
  assumes "0 \<le> x" "x \<le> of_int m" "m \<le> 65535"
  shows "float_to_uint16 oor (Finite (float32_round x)) = word_of_int \<lfloor>float32_round x\<rfloor>"
    and "uint (word_of_int \<lfloor>float32_round x\<rfloor> :: uint16_t) = \<lfloor>float32_round x\<rfloor>"
    and "\<lfloor>x\<rfloor> \<le> \<lfloor>float32_round x\<rfloor>" and "\<lfloor>float32_round x\<rfloor> \<le> \<lfloor>x\<rfloor> + 1"
proof -
  have m: "of_int m < (2 ^ 24 :: real)" using assms(3) by simp
  note b = float32_round_between [OF assms(1,2) m]
  have lo: "0 \<le> \<lfloor>float32_round x\<rfloor>" using b(1) by simp
  have "\<lfloor>float32_round x\<rfloor> \<le> m" using b(2) by (simp add: floor_le_iff)
  then have hi: "\<lfloor>float32_round x\<rfloor> \<le> 65535" using assms(3) by (rule order_trans)
  from lo hi show "float_to_uint16 oor (Finite (float32_round x)) = word_of_int \<lfloor>float32_round x\<rfloor>"
    using b(1) by (simp add: float_to_uint16_def c_trunc_def)
  from lo hi have "take_bit 16 \<lfloor>float32_round x\<rfloor> = \<lfloor>float32_round x\<rfloor>"
    by (simp add: take_bit_int_eq_self)
  then show "uint (word_of_int \<lfloor>float32_round x\<rfloor> :: uint16_t) = \<lfloor>float32_round x\<rfloor>"
    by (simp add: uint_word_of_int_eq)
  show "\<lfloor>x\<rfloor> \<le> \<lfloor>float32_round x\<rfloor>" using b(3) by (simp add: le_floor_iff)
  show "\<lfloor>float32_round x\<rfloor> \<le> \<lfloor>x\<rfloor> + 1" using b(4) by linarith
qed

text \<open>The layout of the Control frame, for any 8-byte output buffer.\<close>

lemma Ctl_frame:
  assumes "length buf = 8"
  shows "CanBus_CreatePacket_Ctl oor (Some c) (Some buf) =
    (True, Some [(if can_enable c then 0x80 else 0x00) OR (if led3_enable c then 0x08 else 0x00),
       msb_of (CurrentAC_ToRawCAN oor (iac_max_A c)), lsb_of (CurrentAC_ToRawCAN oor (iac_max_A c)),
       msb_of (Voltage_ToRawCan oor (vout_max_V c)), lsb_of (Voltage_ToRawCan oor (vout_max_V c)),
       msb_of (CurrentOut_ToRawCan oor (iout_max_A c)),
       lsb_of (CurrentOut_ToRawCan oor (iout_max_A c)),
       0x00])"
  by (simp add: CanBus_CreatePacket_Ctl_def Let_def memset_buf_len8 [OF assms])

lemma clamp_number_Finite_id:
  "lo \<le> x \<Longrightarrow> x \<le> hi \<Longrightarrow> clamp_number lo hi (Finite x) = Some x"
  by (simp add: clamp_number_def)

text \<open>
  The raw values of in-range setpoints: the single-precision product, truncated. It is
  the floor of the exact product or one more.
\<close>

lemma raw_in_range:
  assumes "0 \<le> x" "x \<le> hi" "hi * 10 \<le> of_int m" "m \<le> 65535"
    and r: "r = float_to_uint16 oor (Finite (float32_round (x * 10)))"
  shows "uint r = \<lfloor>float32_round (x * 10)\<rfloor> \<and>
    \<lfloor>x * 10\<rfloor> \<le> \<lfloor>float32_round (x * 10)\<rfloor> \<and> \<lfloor>float32_round (x * 10)\<rfloor> \<le> \<lfloor>x * 10\<rfloor> + 1"
proof -
  have "0 \<le> x * 10" "x * 10 \<le> of_int m" using assms(1-3) by simp_all
  note f = float_to_uint16_in_range [OF this assms(4)]
  show ?thesis unfolding r f(1) using f(2-4) by simp
qed

lemma Ctl_frame_raws:
  assumes len: "length buf = 8"
    and iac: "iac_max_A c = Finite a" "0 \<le> a" "a \<le> 500"
    and vout: "vout_max_V c = Finite v" "0 \<le> v" "v \<le> 6553.5"
    and iout: "iout_max_A c = Finite b" "0 \<le> b" "b \<le> 1500"
    and enc: "CanBus_CreatePacket_Ctl oor (Some c) (Some buf) = (ok, Some d)"
  shows "ok \<and> length d = 8 \<and>
    uint (shl8_or (d ! 1) (d ! 2)) = \<lfloor>float32_round (a * 10)\<rfloor> \<and>
    \<lfloor>a * 10\<rfloor> \<le> \<lfloor>float32_round (a * 10)\<rfloor> \<and> \<lfloor>float32_round (a * 10)\<rfloor> \<le> \<lfloor>a * 10\<rfloor> + 1 \<and>
    uint (shl8_or (d ! 3) (d ! 4)) = \<lfloor>float32_round (v * 10)\<rfloor> \<and>
    \<lfloor>v * 10\<rfloor> \<le> \<lfloor>float32_round (v * 10)\<rfloor> \<and> \<lfloor>float32_round (v * 10)\<rfloor> \<le> \<lfloor>v * 10\<rfloor> + 1 \<and>
    uint (shl8_or (d ! 5) (d ! 6)) = \<lfloor>float32_round (b * 10)\<rfloor> \<and>
    \<lfloor>b * 10\<rfloor> \<le> \<lfloor>float32_round (b * 10)\<rfloor> \<and> \<lfloor>float32_round (b * 10)\<rfloor> \<le> \<lfloor>b * 10\<rfloor> + 1"
proof -
  have ca: "clamp_number 0 500 (iac_max_A c) = Some a"
    unfolding iac(1) using iac(2,3) by (rule clamp_number_Finite_id)
  have "v \<le> 10000" using vout(3) by simp
  with vout(2) have cv: "clamp_number 0 10000 (vout_max_V c) = Some v"
    unfolding vout(1) by (rule clamp_number_Finite_id)
  have cb: "clamp_number 0 1500 (iout_max_A c) = Some b"
    unfolding iout(1) using iout(2,3) by (rule clamp_number_Finite_id)
  have ra: "uint (CurrentAC_ToRawCAN oor (iac_max_A c)) = \<lfloor>float32_round (a * 10)\<rfloor> \<and>
    \<lfloor>a * 10\<rfloor> \<le> \<lfloor>float32_round (a * 10)\<rfloor> \<and> \<lfloor>float32_round (a * 10)\<rfloor> \<le> \<lfloor>a * 10\<rfloor> + 1"
    by (rule raw_in_range [OF iac(2,3) _ _ CurrentAC_clamped [OF ca], where m = 5000]) simp_all
  have rv: "uint (Voltage_ToRawCan oor (vout_max_V c)) = \<lfloor>float32_round (v * 10)\<rfloor> \<and>
    \<lfloor>v * 10\<rfloor> \<le> \<lfloor>float32_round (v * 10)\<rfloor> \<and> \<lfloor>float32_round (v * 10)\<rfloor> \<le> \<lfloor>v * 10\<rfloor> + 1"
    by (rule raw_in_range [OF vout(2,3) _ _ Voltage_clamped [OF cv], where m = 65535]) simp_all
  have rb: "uint (CurrentOut_ToRawCan oor (iout_max_A c)) = \<lfloor>float32_round (b * 10)\<rfloor> \<and>
    \<lfloor>b * 10\<rfloor> \<le> \<lfloor>float32_round (b * 10)\<rfloor> \<and> \<lfloor>float32_round (b * 10)\<rfloor> \<le> \<lfloor>b * 10\<rfloor> + 1"
    by (rule raw_in_range [OF iout(2,3) _ _ CurrentOut_clamped [OF cb], where m = 15000]) simp_all
  from enc have d: "ok" "d = [(if can_enable c then 0x80 else 0x00) OR (if led3_enable c then 0x08 else 0x00),
       msb_of (CurrentAC_ToRawCAN oor (iac_max_A c)), lsb_of (CurrentAC_ToRawCAN oor (iac_max_A c)),
       msb_of (Voltage_ToRawCan oor (vout_max_V c)), lsb_of (Voltage_ToRawCan oor (vout_max_V c)),
       msb_of (CurrentOut_ToRawCan oor (iout_max_A c)),
       lsb_of (CurrentOut_ToRawCan oor (iout_max_A c)),
       0x00]"
    unfolding Ctl_frame [OF len] by simp_all
  show ?thesis
    unfolding d(2) using d(1) ra rv rb by (simp add: shl8_or_msb_lsb)
qed

lemma decode_tenths:
  assumes "uint w = k" "\<lfloor>x * 10\<rfloor> \<le> k" "k \<le> \<lfloor>x * 10\<rfloor> + 1"
  shows "\<bar>uint16_to_float w / 10 - x\<bar> \<le> 0.1"
proof -
  have "uint16_to_float w = real_of_int (uint w)"
    by (simp add: uint16_to_float_def)
  then have e: "uint16_to_float w = real_of_int k" using assms(1) by simp
  have k: "real_of_int \<lfloor>x * 10\<rfloor> \<le> real_of_int k"
    "real_of_int k \<le> real_of_int \<lfloor>x * 10\<rfloor> + 1"
    using assms(2,3) by linarith+
  have f: "real_of_int \<lfloor>x * 10\<rfloor> \<le> x * 10" "x * 10 < real_of_int \<lfloor>x * 10\<rfloor> + 1"
    by linarith+
  have "real_of_int k / 10 - x \<le> 1 / 10" "- (1 / 10) \<le> real_of_int k / 10 - x"
    using k f by linarith+
  then show ?thesis unfolding e by linarith
qed

lemma flag_bits:
  "mask_set ((if e then 0x80 else 0x00) OR (if l then 0x08 else 0x00)) 0x80 = e"
  "mask_set ((if e then 0x80 else 0x00) OR (if l then 0x08 else 0x00)) 0x08 = l"
  by (simp_all add: mask_set_def promote_def)

lemma Ctl_roundtrip_in_range:
  assumes len: "length buf = 8"
    and iac: "iac_max_A c = Finite a" "0 \<le> a" "a \<le> 500"
    and vout: "vout_max_V c = Finite v" "0 \<le> v" "v \<le> 6553.5"
    and iout: "iout_max_A c = Finite b" "0 \<le> b" "b \<le> 1500"
    and enc: "CanBus_CreatePacket_Ctl oor (Some c) (Some buf) = (ok, Some d)"
  shows "print_can_enable (CanBus_Debug_PrintCtl d) = can_enable c \<and>
    print_led3 (CanBus_Debug_PrintCtl d) = led3_enable c \<and>
    \<bar>print_iac (CanBus_Debug_PrintCtl d) - a\<bar> \<le> 0.1 \<and>
    \<bar>print_vout (CanBus_Debug_PrintCtl d) - v\<bar> \<le> 0.1 \<and>
    \<bar>print_iout (CanBus_Debug_PrintCtl d) - b\<bar> \<le> 0.1"
proof -
  note raws = Ctl_frame_raws [OF len iac vout iout enc]
  have d: "d ! 0 = (if can_enable c then 0x80 else 0x00) OR (if led3_enable c then 0x08 else 0x00)"
    using enc unfolding Ctl_frame [OF len] by auto
  have p: "print_can_enable (CanBus_Debug_PrintCtl d) = mask_set (d ! 0) 0x80"
    "print_led3 (CanBus_Debug_PrintCtl d) = mask_set (d ! 0) 0x08"
    "print_iac (CanBus_Debug_PrintCtl d) = uint16_to_float (shl8_or (d ! 1) (d ! 2)) / 10"
    "print_vout (CanBus_Debug_PrintCtl d) = uint16_to_float (shl8_or (d ! 3) (d ! 4)) / 10"
    "print_iout (CanBus_Debug_PrintCtl d) = uint16_to_float (shl8_or (d ! 5) (d ! 6)) / 10"
    by (simp_all add: CanBus_Debug_PrintCtl_def Let_def)
  show ?thesis
    unfolding p d flag_bits
    using raws decode_tenths by blast
qed

text \<open>No 16-bit raw value reads back as more than 6553.5 V.\<close>

lemma PrintCtl_vout_bound: "print_vout (CanBus_Debug_PrintCtl d) \<le> 6553.5"
  using uint16_to_float_le [of "shl8_or (d ! 3) (d ! 4)"]
  by (simp add: CanBus_Debug_PrintCtl_def Let_def)

subsection \<open>The Fault decoder and the sentinel loop\<close>




subsection \<open>The pointer checks, function by function\<close>

lemma Req_null_guard:
  "CanBus_CreatePacket_Req enable rt None = (False, None)"
  "fst (CanBus_CreatePacket_Req enable rt (Some d)) = True"
  by (simp_all add: CanBus_CreatePacket_Req_def Let_def)

lemma Request_wrappers_null_guard:
  "CanBus_Request_FaultActive None = (False, None)"
  "fst (CanBus_Request_FaultActive (Some d)) = True"
  "CanBus_Request_FaultInactive None = (False, None)"
  "fst (CanBus_Request_FaultInactive (Some d)) = True"
  "CanBus_Request_Software None = (False, None)"
  "fst (CanBus_Request_Software (Some d)) = True"
  "CanBus_Request_SerialNumber None = (False, None)"
  "fst (CanBus_Request_SerialNumber (Some d)) = True"
  by (simp_all add: CanBus_Request_FaultActive_def CanBus_Request_FaultInactive_def
      CanBus_Request_Software_def CanBus_Request_SerialNumber_def Req_null_guard)

lemma Ctl_null_guard:
  "CanBus_CreatePacket_Ctl oor None data = (False, data)"
  "CanBus_CreatePacket_Ctl oor ctl None = (False, None)"
  "fst (CanBus_CreatePacket_Ctl oor (Some c) (Some d)) = True"
  by (simp_all add: CanBus_CreatePacket_Ctl_def Let_def)

lemma Ctl_Simple_null_guard:
  "CanBus_CreatePacket_Ctl_Simple oor e l i v o' None = (False, None)"
  "fst (CanBus_CreatePacket_Ctl_Simple oor e l i v o' (Some d)) = True"
  by (simp_all add: CanBus_CreatePacket_Ctl_Simple_def Ctl_null_guard)

lemma Stat_null_guard:
  "CanBus_DecodePacket_Stat None out = (False, out)"
  "CanBus_DecodePacket_Stat data None = (False, None)"
  "fst (CanBus_DecodePacket_Stat (Some d) (Some s)) = True"
  by (simp_all add: CanBus_DecodePacket_Stat_def Let_def)

lemma Act1_null_guard:
  "CanBus_DecodePacket_Act1 None out = (False, out)"
  "CanBus_DecodePacket_Act1 data None = (False, None)"
  "fst (CanBus_DecodePacket_Act1 (Some d) (Some s)) = True"
  by (simp_all add: CanBus_DecodePacket_Act1_def Let_def)

lemma Act2_null_guard:
  "CanBus_DecodePacket_Act2 None out = (False, out)"
  "CanBus_DecodePacket_Act2 data None = (False, None)"
  "fst (CanBus_DecodePacket_Act2 (Some d) (Some s)) = True"
  by (simp_all add: CanBus_DecodePacket_Act2_def Let_def)

lemma Tst1_null_guard:
  "CanBus_DecodePacket_Tst1 None out = (False, out)"
  "CanBus_DecodePacket_Tst1 data None = (False, None)"
  "fst (CanBus_DecodePacket_Tst1 (Some d) (Some s)) = True"
  by (simp_all add: CanBus_DecodePacket_Tst1_def Let_def)

lemma Fault_null_guard:
  "CanBus_DecodePacket_Fault None out = (False, out)"
  "CanBus_DecodePacket_Fault data None = (False, None)"
  "fst (CanBus_DecodePacket_Fault (Some d) (Some s)) = True"
  by (simp_all add: CanBus_DecodePacket_Fault_def Let_def)

lemma Software_null_guard:
  "CanBus_DecodePacket_Software None out = (False, out)"
  "CanBus_DecodePacket_Software data None = (False, None)"
  "fst (CanBus_DecodePacket_Software (Some d) (Some s)) = True"
  by (simp_all add: CanBus_DecodePacket_Software_def Let_def)

lemma SerialNumber_null_guard:
  "CanBus_DecodePacket_SerialNumber None out = (False, out)"
  "CanBus_DecodePacket_SerialNumber data None = (False, None)"
  "fst (CanBus_DecodePacket_SerialNumber (Some d) (Some s)) = True"
  by (simp_all add: CanBus_DecodePacket_SerialNumber_def Let_def)

lemma Act3_null_guard:
  "CanBus_DecodePacket_Act3 None out = (False, out)"
  "CanBus_DecodePacket_Act3 data None = (False, None)"
  "fst (CanBus_DecodePacket_Act3 (Some d) (Some s)) = True"
  by (simp_all add: CanBus_DecodePacket_Act3_def Let_def)

lemma Temp_null_guard:
  "CanBus_DecodePacket_Temp None out = (False, out)"
  "CanBus_DecodePacket_Temp data None = (False, None)"
  "fst (CanBus_DecodePacket_Temp (Some d) (Some s)) = True"
  by (simp_all add: CanBus_DecodePacket_Temp_def Let_def)

lemma Stst1_null_guard:
  "CanBus_DecodePacket_Stst1 None out = (False, out)"
  "CanBus_DecodePacket_Stst1 data None = (False, None)"
  "fst (CanBus_DecodePacket_Stst1 (Some d) (Some s)) = True"
  by (simp_all add: CanBus_DecodePacket_Stst1_def Let_def)

lemma Act4_null_guard:
  "CanBus_DecodePacket_Act4 None out = (False, out)"
  "CanBus_DecodePacket_Act4 data None = (False, None)"
  "fst (CanBus_DecodePacket_Act4 (Some d) (Some s)) = True"
  by (simp_all add: CanBus_DecodePacket_Act4_def Let_def)

lemma Tst2_null_guard:
  "CanBus_DecodePacket_Tst2 None out = (False, out)"
  "CanBus_DecodePacket_Tst2 data None = (False, None)"
  "fst (CanBus_DecodePacket_Tst2 (Some d) (Some s)) = True"
  by (simp_all add: CanBus_DecodePacket_Tst2_def Let_def)

subsection \<open>Which decoders overwrite the whole output struct\<close>

text \<open>
  Each decoder below assigns every field of its struct, so its result does not depend on
  what the struct held before. The Fault decoder does so as long as the level bits are
  not \<open>01\<close>; the two text decoders do so on a 9-byte array.
\<close>

lemma Stat_pure:
  "CanBus_DecodePacket_Stat (Some d) (Some s1) = CanBus_DecodePacket_Stat (Some d) (Some s2)"
  by (cases s1, cases s2) (simp add: CanBus_DecodePacket_Stat_def Let_def)

lemma Act1_pure:
  "CanBus_DecodePacket_Act1 (Some d) (Some s1) = CanBus_DecodePacket_Act1 (Some d) (Some s2)"
  by (cases s1, cases s2) (simp add: CanBus_DecodePacket_Act1_def Let_def)

lemma Act2_pure:
  "CanBus_DecodePacket_Act2 (Some d) (Some s1) = CanBus_DecodePacket_Act2 (Some d) (Some s2)"
  by (cases s1, cases s2) (simp add: CanBus_DecodePacket_Act2_def Let_def)

lemma Tst1_pure:
  "CanBus_DecodePacket_Tst1 (Some d) (Some s1) = CanBus_DecodePacket_Tst1 (Some d) (Some s2)"
  by (cases s1, cases s2) (simp add: CanBus_DecodePacket_Tst1_def Let_def)

lemma Act3_pure:
  "CanBus_DecodePacket_Act3 (Some d) (Some s1) = CanBus_DecodePacket_Act3 (Some d) (Some s2)"
  by (cases s1, cases s2) (simp add: CanBus_DecodePacket_Act3_def Let_def)

lemma Temp_pure:
  "CanBus_DecodePacket_Temp (Some d) (Some s1) = CanBus_DecodePacket_Temp (Some d) (Some s2)"
  by (cases s1, cases s2) (simp add: CanBus_DecodePacket_Temp_def Let_def)

lemma Stst1_pure:
  "CanBus_DecodePacket_Stst1 (Some d) (Some s1) = CanBus_DecodePacket_Stst1 (Some d) (Some s2)"
  by (cases s1, cases s2) (simp add: CanBus_DecodePacket_Stst1_def Let_def)

lemma Act4_pure:
  "CanBus_DecodePacket_Act4 (Some d) (Some s1) = CanBus_DecodePacket_Act4 (Some d) (Some s2)"
  by (cases s1, cases s2) (simp add: CanBus_DecodePacket_Act4_def Let_def)

lemma Tst2_pure:
  "CanBus_DecodePacket_Tst2 (Some d) (Some s1) = CanBus_DecodePacket_Tst2 (Some d) (Some s2)"
  by (cases s1, cases s2) (simp add: CanBus_DecodePacket_Tst2_def Let_def)

lemma Fault_pure_unless_level_01:
  assumes "(ucast (promote (d ! 3) AND 0x03) :: uint8_t) \<noteq> 1"
  shows "CanBus_DecodePacket_Fault (Some d) (Some f1) = CanBus_DecodePacket_Fault (Some d) (Some f2)"
  using assms level_bits_cases [of "d ! 3"]
  by (cases f1, cases f2) (auto simp add: CanBus_DecodePacket_Fault_def Let_def)

text \<open>With level bits \<open>01\<close> the failure level after the call is the one before it.\<close>

lemma Fault_level_01_keeps_prior:
  assumes "(ucast (promote (d ! 3) AND 0x03) :: uint8_t) = 1"
  shows "fst (CanBus_DecodePacket_Fault (Some d) (Some f)) = True \<and>
    failure_level (the (snd (CanBus_DecodePacket_Fault (Some d) (Some f)))) = failure_level f"
  using assms by (simp add: CanBus_DecodePacket_Fault_def Let_def)

lemma Software_pure:
  assumes "length d = 8" "length (version s) = 9"
  shows "CanBus_DecodePacket_Software (Some d) (Some s) = (True, Some (s\<lparr>version := d @ [0]\<rparr>))"
proof -
  have "memcpy_buf (version s) d 8 = d @ drop 8 (version s)"
    using assms by (simp add: memcpy_buf_def)
  moreover have "length (d @ drop 8 (version s)) = 9" using assms by simp
  moreover have "(d @ drop 8 (version s))[8 := 0] = d @ [0]"
  proof -
    have "length (drop 8 (version s)) = 1" using assms by simp
    then obtain z where "drop 8 (version s) = [z]"
      by (cases "drop 8 (version s)") auto
    then show ?thesis using assms by (simp add: list_update_append)
  qed
  ultimately show ?thesis
    by (simp add: CanBus_DecodePacket_Software_def Let_def)
qed

lemma SerialNumber_pure:
  assumes "length d = 8" "length (serial s) = 9"
  shows "CanBus_DecodePacket_SerialNumber (Some d) (Some s) = (True, Some (s\<lparr>serial := d @ [0]\<rparr>))"
proof -
  have "memcpy_buf (serial s) d 8 = d @ drop 8 (serial s)"
    using assms by (simp add: memcpy_buf_def)
  moreover have "(d @ drop 8 (serial s))[8 := 0] = d @ [0]"
  proof -
    have "length (drop 8 (serial s)) = 1" using assms by simp
    then obtain z where "drop 8 (serial s) = [z]"
      by (cases "drop 8 (serial s)") auto
    then show ?thesis using assms by (simp add: list_update_append)
  qed
  ultimately show ?thesis
    by (simp add: CanBus_DecodePacket_SerialNumber_def Let_def)
qed

section \<open>The claims\<close>

text \<open>
  C1. For a Fault buffer whose byte 3 has the low two bits \<open>01\<close>, the decoder should
  store a distinguishable "unrecognized" failure level and never leave the field
  unassigned. Evaluated on \<open>[0x41,0x01,0xA8,0x15,0x00,0x1E,0x00,0x78]\<close> the decoder returns
  \<open>True\<close> and updates every field except \<open>failure_level\<close>, which keeps what the struct
  held before: a struct that held \<open>FAILURE_HARD\<close> still reports \<open>FAILURE_HARD\<close>.
\<close>

theorem Fault_level_01_left_unassigned:
  "CanBus_DecodePacket_Fault (Some [0x41, 0x01, 0xA8, 0x15, 0x00, 0x1E, 0x00, 0x78]) (Some f0) =
     (True, Some (f0\<lparr>frame_type := FRAME_SINGLE, total_errors := 1, frame_number := 0,
                     fault_code := 0xA8, occurrence := 5,
                     first_time_h := 30, last_time_h := 120\<rparr>)) \<and>
   failure_level (the (snd (CanBus_DecodePacket_Fault
       (Some [0x41, 0x01, 0xA8, 0x15, 0x00, 0x1E, 0x00, 0x78])
       (Some (f0\<lparr>failure_level := FAILURE_HARD\<rparr>))))) = FAILURE_HARD"
  by (simp add: CanBus_DecodePacket_Fault_def Let_def Fault_enum_defs bit_helper_defs)




text \<open>
  C3, as stated: the raw integer written into the Control frame equals the scaled value
  rounded to the nearest integer. With an AC current limit of 0.1875 A the scaled value
  is 1.875, exact in single precision, which rounds to 2; the frame carries the raw
  value 1 in bytes 1 and 2.
\<close>

theorem Ctl_raw_not_rounded:
  "CanBus_CreatePacket_Ctl saturating_cast
       (Some \<lparr>can_enable = True, led3_enable = False, iac_max_A = Finite (3 / 16),
              vout_max_V = Finite 360, iout_max_A = Finite 17\<rparr>)
       (Some [0, 0, 0, 0, 0, 0, 0, 0]) =
     (True, Some [0x80, 0x00, 0x01, 0x0E, 0x10, 0x00, 0xAA, 0x00]) \<and>
   uint (shl8_or (0x00 :: uint8_t) 0x01) = 1 \<and>
   round ((3 / 16 :: real) / 0.1) = 2"
  by (simp add: CanBus_CreatePacket_Ctl_def Let_def memset_buf_8 Ctl_raw_defs float32_round_defs
      round_def bit_helper_defs)

text \<open>
  C3, amended. For an AC current limit in [0, 500] A, an output current limit in
  [0, 1500] A and an output voltage limit in [0, 6553.5] V, the 16-bit raw integer
  written big-endian into bytes 1-2, 3-4 and 5-6 of the Control frame is the
  single-precision product of the physical value and ten with the fractional part
  discarded (truncated, not rounded to nearest). It is the floor of the exact product or
  one more: the latter where the product rounds up to an integer, as for the float
  nearest to 0.7, stored as 7.
\<close>

theorem Ctl_raw_is_truncated:
  assumes len: "length buf = 8"
    and iac: "iac_max_A c = Finite a" "0 \<le> a" "a \<le> 500"
    and vout: "vout_max_V c = Finite v" "0 \<le> v" "v \<le> 6553.5"
    and iout: "iout_max_A c = Finite b" "0 \<le> b" "b \<le> 1500"
    and enc: "CanBus_CreatePacket_Ctl oor (Some c) (Some buf) = (ok, Some d)"
  shows "ok \<and> length d = 8 \<and>
    uint (shl8_or (d ! 1) (d ! 2)) = \<lfloor>float32_round (a * 10)\<rfloor> \<and>
    \<lfloor>a * 10\<rfloor> \<le> \<lfloor>float32_round (a * 10)\<rfloor> \<and> \<lfloor>float32_round (a * 10)\<rfloor> \<le> \<lfloor>a * 10\<rfloor> + 1 \<and>
    uint (shl8_or (d ! 3) (d ! 4)) = \<lfloor>float32_round (v * 10)\<rfloor> \<and>
    \<lfloor>v * 10\<rfloor> \<le> \<lfloor>float32_round (v * 10)\<rfloor> \<and> \<lfloor>float32_round (v * 10)\<rfloor> \<le> \<lfloor>v * 10\<rfloor> + 1 \<and>
    uint (shl8_or (d ! 5) (d ! 6)) = \<lfloor>float32_round (b * 10)\<rfloor> \<and>
    \<lfloor>b * 10\<rfloor> \<le> \<lfloor>float32_round (b * 10)\<rfloor> \<and> \<lfloor>float32_round (b * 10)\<rfloor> \<le> \<lfloor>b * 10\<rfloor> + 1"
  by (rule Ctl_frame_raws [OF len iac vout iout enc])

theorem Ctl_raw_is_truncated_witness:
  "CanBus_CreatePacket_Ctl saturating_cast
       (Some \<lparr>can_enable = True, led3_enable = False,
              iac_max_A = Finite (11744051 / 16777216), vout_max_V = Finite 360,
              iout_max_A = Finite 17\<rparr>)
       (Some [0, 0, 0, 0, 0, 0, 0, 0]) =
     (True, Some [0x80, 0x00, 0x07, 0x0E, 0x10, 0x00, 0xAA, 0x00]) \<and>
   uint (shl8_or (0x00 :: uint8_t) 0x07) = \<lfloor>float32_round (11744051 / 16777216 * 10)\<rfloor> \<and>
   \<lfloor>float32_round (11744051 / 16777216 * 10)\<rfloor> = 7 \<and>
   \<lfloor>(11744051 / 16777216 :: real) * 10\<rfloor> = 6 \<and>
   uint (shl8_or (0x0E :: uint8_t) 0x10) = \<lfloor>float32_round (360 * 10)\<rfloor> \<and>
   uint (shl8_or (0x00 :: uint8_t) 0xAA) = \<lfloor>float32_round (17 * 10)\<rfloor>"
proof -
  have enc: "CanBus_CreatePacket_Ctl saturating_cast
       (Some \<lparr>can_enable = True, led3_enable = False,
              iac_max_A = Finite (11744051 / 16777216), vout_max_V = Finite 360,
              iout_max_A = Finite 17\<rparr>)
       (Some [0, 0, 0, 0, 0, 0, 0, 0]) =
     (True, Some [0x80, 0x00, 0x07, 0x0E, 0x10, 0x00, 0xAA, 0x00])"
    by (simp add: CanBus_CreatePacket_Ctl_def Let_def memset_buf_8 Ctl_raw_defs
        float32_round_defs)
  from Ctl_raw_is_truncated [OF _ _ _ _ _ _ _ _ _ _ enc, of "11744051 / 16777216" 360 17]
  have "uint (shl8_or (0x00 :: uint8_t) 0x07) = \<lfloor>float32_round (11744051 / 16777216 * 10)\<rfloor> \<and>
    uint (shl8_or (0x0E :: uint8_t) 0x10) = \<lfloor>float32_round (360 * 10)\<rfloor> \<and>
    uint (shl8_or (0x00 :: uint8_t) 0xAA) = \<lfloor>float32_round (17 * 10)\<rfloor>"
    by simp
  with enc show ?thesis by (simp add: float32_round_defs Let_def)
qed

text \<open>
  C4, as stated: for every input each setpoint is clamped to its range before scaling.
  A NaN setpoint fails both comparisons \<^verbatim>\<open>< 0.0f\<close> and \<^verbatim>\<open>> 500.0f\<close>, so it has no
  clamped value and reaches the multiplication and the cast as it is. The conversion of
  NaN is undefined in C; with a conversion that yields \<open>0xFFFF\<close> for it the frame
  carries an AC current limit of 6553.5 A.
\<close>

theorem Ctl_NaN_setpoint_not_clamped:
  "clamp_number 0 500 NaN = None \<and>
   CanBus_CreatePacket_Ctl saturating_cast
       (Some \<lparr>can_enable = True, led3_enable = False, iac_max_A = NaN,
              vout_max_V = Finite 360, iout_max_A = Finite 17\<rparr>)
       (Some [0, 0, 0, 0, 0, 0, 0, 0]) =
     (True, Some [0x80, 0xFF, 0xFF, 0x0E, 0x10, 0x00, 0xAA, 0x00]) \<and>
   print_iac (CanBus_Debug_PrintCtl [0x80, 0xFF, 0xFF, 0x0E, 0x10, 0x00, 0xAA, 0x00]) = 6553.5"
  by (simp add: clamp_number_def CanBus_CreatePacket_Ctl_def Let_def memset_buf_8 Ctl_raw_defs
      float32_round_defs saturating_cast_def CanBus_Debug_PrintCtl_def bit_helper_defs
      uint16_to_float_def)

text \<open>
  C4, amended. For every input whose three setpoints are numbers (finite, or infinite:
  plus infinity counts as the upper bound and minus infinity as 0), each setpoint is
  clamped to its own range (0-500 A, 0-10000 V, 0-1500 A) before it is multiplied by
  ten in single precision; the encoder returns \<open>True\<close>; byte 0 carries the two flags,
  bytes 1-2 and 5-6 the truncated products of the clamped currents, bytes 3-4 the
  converted product of the clamped voltage (the truncated product up to 6553.5 V), each
  most significant byte first, and byte 7 is zero. An AC current limit of 600 A gives the
  same eight bytes as 500 A.
\<close>

theorem Ctl_clamps_before_scaling:
  assumes len: "length buf = 8"
    and iac: "clamp_number 0 500 (iac_max_A c) = Some a"
    and vout: "clamp_number 0 10000 (vout_max_V c) = Some v"
    and iout: "clamp_number 0 1500 (iout_max_A c) = Some b"
  shows "0 \<le> a \<and> a \<le> 500 \<and> 0 \<le> v \<and> v \<le> 10000 \<and> 0 \<le> b \<and> b \<le> 1500 \<and>
    CanBus_CreatePacket_Ctl oor (Some c) (Some buf) =
      (True, Some
        [(if can_enable c then 0x80 else 0x00) OR (if led3_enable c then 0x08 else 0x00),
         msb_of (word_of_int \<lfloor>float32_round (a * 10)\<rfloor>),
         lsb_of (word_of_int \<lfloor>float32_round (a * 10)\<rfloor>),
         msb_of (float_to_uint16 oor (Finite (float32_round (v * 10)))),
         lsb_of (float_to_uint16 oor (Finite (float32_round (v * 10)))),
         msb_of (word_of_int \<lfloor>float32_round (b * 10)\<rfloor>),
         lsb_of (word_of_int \<lfloor>float32_round (b * 10)\<rfloor>),
         0x00]) \<and>
    (v \<le> 6553.5 \<longrightarrow>
       float_to_uint16 oor (Finite (float32_round (v * 10))) =
         word_of_int \<lfloor>float32_round (v * 10)\<rfloor>) \<and>
    CanBus_CreatePacket_Ctl oor (Some (c\<lparr>iac_max_A := Finite 600\<rparr>)) (Some buf) =
      CanBus_CreatePacket_Ctl oor (Some (c\<lparr>iac_max_A := Finite 500\<rparr>)) (Some buf)"
proof -
  have ra: "0 \<le> a" "a \<le> 500" using clamp_number_range [OF iac] by simp_all
  have rv: "0 \<le> v" "v \<le> 10000" using clamp_number_range [OF vout] by simp_all
  have rb: "0 \<le> b" "b \<le> 1500" using clamp_number_range [OF iout] by simp_all
  have "0 \<le> a * 10" "a * 10 \<le> of_int 5000" using ra by simp_all
  from float_to_uint16_in_range(1) [OF this]
  have ca: "CurrentAC_ToRawCAN oor (iac_max_A c) = word_of_int \<lfloor>float32_round (a * 10)\<rfloor>"
    by (simp add: CurrentAC_clamped [OF iac])
  have "0 \<le> b * 10" "b * 10 \<le> of_int 15000" using rb by simp_all
  from float_to_uint16_in_range(1) [OF this]
  have cb: "CurrentOut_ToRawCan oor (iout_max_A c) = word_of_int \<lfloor>float32_round (b * 10)\<rfloor>"
    by (simp add: CurrentOut_clamped [OF iout])
  have cv: "v \<le> 6553.5 \<longrightarrow>
       float_to_uint16 oor (Finite (float32_round (v * 10))) =
         word_of_int \<lfloor>float32_round (v * 10)\<rfloor>"
  proof
    assume "v \<le> 6553.5"
    then have "0 \<le> v * 10" "v * 10 \<le> of_int 65535" using rv by simp_all
    from float_to_uint16_in_range(1) [OF this]
    show "float_to_uint16 oor (Finite (float32_round (v * 10))) =
         word_of_int \<lfloor>float32_round (v * 10)\<rfloor>" by simp
  qed
  have "clamp_number 0 500 (Finite 600) = Some 500" "clamp_number 0 500 (Finite 500) = Some 500"
    by (simp_all add: clamp_number_def)
  then have "CurrentAC_ToRawCAN oor (Finite 600) = CurrentAC_ToRawCAN oor (Finite 500)"
    by (simp only: CurrentAC_clamped)
  then have same: "CanBus_CreatePacket_Ctl oor (Some (c\<lparr>iac_max_A := Finite 600\<rparr>)) (Some buf) =
      CanBus_CreatePacket_Ctl oor (Some (c\<lparr>iac_max_A := Finite 500\<rparr>)) (Some buf)"
    by (simp add: CanBus_CreatePacket_Ctl_def Let_def)
  show ?thesis
    unfolding Ctl_frame [OF len] ca cb Voltage_clamped [OF vout]
    using ra rv rb cv same by (simp add: Ctl_frame [OF len])
qed

theorem Ctl_clamps_before_scaling_witness:
  "clamp_number 0 500 (Finite 600) = Some 500 \<and>
   clamp_number 0 10000 (Finite (- 5)) = Some 0 \<and>
   clamp_number 0 1500 PlusInfinity = Some 1500 \<and>
   CanBus_CreatePacket_Ctl saturating_cast
       (Some \<lparr>can_enable = True, led3_enable = True, iac_max_A = Finite 600,
              vout_max_V = Finite (- 5), iout_max_A = PlusInfinity\<rparr>)
       (Some [1, 2, 3, 4, 5, 6, 7, 8]) =
     (True, Some [0x88, 0x13, 0x88, 0x00, 0x00, 0x3A, 0x98, 0x00])"
proof -
  have c: "clamp_number 0 500 (Finite 600) = Some 500"
    "clamp_number 0 10000 (Finite (- 5)) = Some 0"
    "clamp_number 0 1500 PlusInfinity = Some 1500"
    by (simp_all add: clamp_number_def)
  from Ctl_clamps_before_scaling [of "[1, 2, 3, 4, 5, 6, 7, 8]"
      "\<lparr>can_enable = True, led3_enable = True, iac_max_A = Finite 600,
        vout_max_V = Finite (- 5), iout_max_A = PlusInfinity\<rparr>" 500 0 1500 saturating_cast]
  have "CanBus_CreatePacket_Ctl saturating_cast
       (Some \<lparr>can_enable = True, led3_enable = True, iac_max_A = Finite 600,
              vout_max_V = Finite (- 5), iout_max_A = PlusInfinity\<rparr>)
       (Some [1, 2, 3, 4, 5, 6, 7, 8]) =
     (True, Some [0x88, msb_of (word_of_int \<lfloor>float32_round (500 * 10)\<rfloor>),
         lsb_of (word_of_int \<lfloor>float32_round (500 * 10)\<rfloor>),
         msb_of (float_to_uint16 saturating_cast (Finite (float32_round (0 * 10)))),
         lsb_of (float_to_uint16 saturating_cast (Finite (float32_round (0 * 10)))),
         msb_of (word_of_int \<lfloor>float32_round (1500 * 10)\<rfloor>),
         lsb_of (word_of_int \<lfloor>float32_round (1500 * 10)\<rfloor>),
         0x00])"
    using c by simp
  then show ?thesis
    using c by (simp add: float32_round_defs Let_def float_to_uint16_def c_trunc_def msb_of_def
        lsb_of_def)
qed

text \<open>
  C5. Encoding enable = true, LED3 = false, 16 A, 360 V, 17 A gives the frame
  \<open>[0x80,0x00,0xA0,0x0E,0x10,0x00,0xAA,0x00]\<close>, whatever the eight bytes of the output
  buffer were before.
\<close>

theorem Ctl_known_vector:
  "CanBus_CreatePacket_Ctl oor
     (Some \<lparr>can_enable = True, led3_enable = False, iac_max_A = Finite 16,
            vout_max_V = Finite 360, iout_max_A = Finite 17\<rparr>)
     (Some [b0, b1, b2, b3, b4, b5, b6, b7]) =
   (True, Some [0x80, 0x00, 0xA0, 0x0E, 0x10, 0x00, 0xAA, 0x00])"
  by (simp add: CanBus_CreatePacket_Ctl_def Let_def memset_buf_8 Ctl_raw_defs float32_round_defs)

text \<open>
  C6. The round trip on the Control message should recover every valid tuple, with the
  output voltage limit anywhere in [0, 10000] V, within 0.1. With 7000 V, inside the range
  the encoder documents and clamps to, the product 70000 does not fit the 16-bit field.
  With a conversion that keeps the low 16 bits the frame carries 4464 and reads back as
  446.4 V; with any conversion it reads back as at most 6553.5 V.
\<close>

theorem Ctl_roundtrip_fails_above_6553:
  "CanBus_Debug_PrintCtl (the (snd (CanBus_CreatePacket_Ctl saturating_cast
       (Some \<lparr>can_enable = True, led3_enable = False, iac_max_A = Finite 16,
              vout_max_V = Finite 7000, iout_max_A = Finite 17\<rparr>)
       (Some [0, 0, 0, 0, 0, 0, 0, 0])))) =
     \<lparr>print_can_enable = True, print_led3 = False, print_iac_raw = 160, print_iac = 16,
      print_vout_raw = 4464, print_vout = 446.4, print_iout_raw = 170, print_iout = 17\<rparr> \<and>
   print_vout (CanBus_Debug_PrintCtl (the (snd (CanBus_CreatePacket_Ctl oor
       (Some \<lparr>can_enable = True, led3_enable = False, iac_max_A = Finite 16,
              vout_max_V = Finite 7000, iout_max_A = Finite 17\<rparr>)
       (Some [0, 0, 0, 0, 0, 0, 0, 0]))))) \<le> 6553.5"
proof -
  have "CanBus_Debug_PrintCtl (the (snd (CanBus_CreatePacket_Ctl saturating_cast
       (Some \<lparr>can_enable = True, led3_enable = False, iac_max_A = Finite 16,
              vout_max_V = Finite 7000, iout_max_A = Finite 17\<rparr>)
       (Some [0, 0, 0, 0, 0, 0, 0, 0])))) =
     \<lparr>print_can_enable = True, print_led3 = False, print_iac_raw = 160, print_iac = 16,
      print_vout_raw = 4464, print_vout = 446.4, print_iout_raw = 170, print_iout = 17\<rparr>"
    by (simp add: CanBus_CreatePacket_Ctl_def Let_def memset_buf_8 Ctl_raw_defs
        float32_round_defs saturating_cast_def CanBus_Debug_PrintCtl_def bit_helper_defs
        uint16_to_float_def)
  then show ?thesis using PrintCtl_vout_bound by blast
qed

text \<open>
  C7. Decoding the Fault frame \<open>[0x41,0x01,0xA8,0x17,0x00,0x1E,0x00,0x78]\<close> succeeds and
  yields frame type Single, one total error, fault code \<open>0xA8\<close>, failure level Hard,
  first time 30 hours and last time 120 hours, whatever the output struct held before.
\<close>

theorem Fault_known_vector:
  "CanBus_DecodePacket_Fault (Some [0x41, 0x01, 0xA8, 0x17, 0x00, 0x1E, 0x00, 0x78]) (Some f0) =
     (True, Some (f0\<lparr>frame_type := FRAME_SINGLE, total_errors := 1, frame_number := 0,
                     fault_code := 0xA8, occurrence := 5, failure_level := FAILURE_HARD,
                     first_time_h := 30, last_time_h := 120\<rparr>))"
  by (simp add: CanBus_DecodePacket_Fault_def Let_def Fault_enum_defs bit_helper_defs)

text \<open>
  C8. Decoding the configuration frame \<open>[0x04,0x00,0xA0,0x0F,0xA0,0x03,0xE8,0xA5]\<close>
  succeeds and yields baudrate 500 Kbit/s, a maximum AC current of 32.0 A, a maximum
  output voltage of 400.0 V, a maximum output current of 100.0 A and password \<open>0xA5\<close>,
  next to the other fields of the struct.
\<close>

theorem Tst2_known_vector:
  "CanBus_DecodePacket_Tst2 (Some [0x04, 0x00, 0xA0, 0x0F, 0xA0, 0x03, 0xE8, 0xA5]) (Some t0) =
     (True, Some (t0\<lparr>baudrate := BAUDRATE_500KBIT, id_type := ID_STANDARD_11BIT,
        iac_control := IAC_SAEJ1772, range := RANGE_R4_EVO_USERS, three_phase := False,
        slave := False, evc_model := EVC_EVO11K, id_setting := ID_SINGLE_CHARGER,
        parallel_ctrl := False, air_cooler := False,
        iacm_max_set_A := 32.0, vout_max_set_V := 400.0, iout_max_set_A := 100.0,
        password := 0xA5\<rparr>))"
  by (simp add: CanBus_DecodePacket_Tst2_def Let_def Tst2_enum_defs bit_helper_defs
      uint16_to_float_def)

text \<open>
  C9. Every decoder should be a function of the buffer alone. The Fault decoder is not:
  on the buffer \<open>[0x41,0x01,0xA8,0x15,0x00,0x1E,0x00,0x78]\<close>, whose level bits are \<open>01\<close>,
  two output structs that differ in \<open>failure_level\<close> before the call differ after it.
\<close>

theorem Fault_decode_depends_on_prior_struct:
  "CanBus_DecodePacket_Fault (Some [0x41, 0x01, 0xA8, 0x15, 0x00, 0x1E, 0x00, 0x78])
     (Some (f0\<lparr>failure_level := FAILURE_WARNING\<rparr>)) \<noteq>
   CanBus_DecodePacket_Fault (Some [0x41, 0x01, 0xA8, 0x15, 0x00, 0x1E, 0x00, 0x78])
     (Some (f0\<lparr>failure_level := FAILURE_HARD\<rparr>))"
  by (cases f0) (simp add: CanBus_DecodePacket_Fault_def Let_def Fault_enum_defs bit_helper_defs)

text \<open>
  C10. Every encoder and decoder checks its pointers first: with a null data buffer or a
  null struct pointer it returns \<open>False\<close> and leaves the object behind the other pointer
  as it was; with both pointers set it returns \<open>True\<close>.
\<close>

theorem Null_pointers_rejected_without_writes:
  "CanBus_CreatePacket_Ctl oor None buf = (False, buf) \<and>
   CanBus_CreatePacket_Ctl oor ctl None = (False, None) \<and>
   fst (CanBus_CreatePacket_Ctl oor (Some c) (Some d)) = True \<and>
   CanBus_CreatePacket_Ctl_Simple oor en led iac vout iout None = (False, None) \<and>
   fst (CanBus_CreatePacket_Ctl_Simple oor en led iac vout iout (Some d)) = True \<and>
   CanBus_CreatePacket_Req en request_type None = (False, None) \<and>
   fst (CanBus_CreatePacket_Req en request_type (Some d)) = True \<and>
   CanBus_Request_FaultActive None = (False, None) \<and>
   fst (CanBus_Request_FaultActive (Some d)) = True \<and>
   CanBus_Request_FaultInactive None = (False, None) \<and>
   fst (CanBus_Request_FaultInactive (Some d)) = True \<and>
   CanBus_Request_Software None = (False, None) \<and>
   fst (CanBus_Request_Software (Some d)) = True \<and>
   CanBus_Request_SerialNumber None = (False, None) \<and>
   fst (CanBus_Request_SerialNumber (Some d)) = True \<and>
   CanBus_DecodePacket_Stat None out_stat = (False, out_stat) \<and>
   CanBus_DecodePacket_Stat data None = (False, None) \<and>
   fst (CanBus_DecodePacket_Stat (Some d) (Some s_stat)) = True \<and>
   CanBus_DecodePacket_Act1 None out_act1 = (False, out_act1) \<and>
   CanBus_DecodePacket_Act1 data None = (False, None) \<and>
   fst (CanBus_DecodePacket_Act1 (Some d) (Some s_act1)) = True \<and>
   CanBus_DecodePacket_Act2 None out_act2 = (False, out_act2) \<and>
   CanBus_DecodePacket_Act2 data None = (False, None) \<and>
   fst (CanBus_DecodePacket_Act2 (Some d) (Some s_act2)) = True \<and>
   CanBus_DecodePacket_Tst1 None out_tst1 = (False, out_tst1) \<and>
   CanBus_DecodePacket_Tst1 data None = (False, None) \<and>
   fst (CanBus_DecodePacket_Tst1 (Some d) (Some s_tst1)) = True \<and>
   CanBus_DecodePacket_Fault None out_fault = (False, out_fault) \<and>
   CanBus_DecodePacket_Fault data None = (False, None) \<and>
   fst (CanBus_DecodePacket_Fault (Some d) (Some s_fault)) = True \<and>
   CanBus_DecodePacket_Software None out_software = (False, out_software) \<and>
   CanBus_DecodePacket_Software data None = (False, None) \<and>
   fst (CanBus_DecodePacket_Software (Some d) (Some s_software)) = True \<and>
   CanBus_DecodePacket_SerialNumber None out_serialnumber = (False, out_serialnumber) \<and>
   CanBus_DecodePacket_SerialNumber data None = (False, None) \<and>
   fst (CanBus_DecodePacket_SerialNumber (Some d) (Some s_serialnumber)) = True \<and>
   CanBus_DecodePacket_Act3 None out_act3 = (False, out_act3) \<and>
   CanBus_DecodePacket_Act3 data None = (False, None) \<and>
   fst (CanBus_DecodePacket_Act3 (Some d) (Some s_act3)) = True \<and>
   CanBus_DecodePacket_Temp None out_temp = (False, out_temp) \<and>
   CanBus_DecodePacket_Temp data None = (False, None) \<and>
   fst (CanBus_DecodePacket_Temp (Some d) (Some s_temp)) = True \<and>
   CanBus_DecodePacket_Stst1 None out_stst1 = (False, out_stst1) \<and>
   CanBus_DecodePacket_Stst1 data None = (False, None) \<and>
   fst (CanBus_DecodePacket_Stst1 (Some d) (Some s_stst1)) = True \<and>
   CanBus_DecodePacket_Act4 None out_act4 = (False, out_act4) \<and>
   CanBus_DecodePacket_Act4 data None = (False, None) \<and>
   fst (CanBus_DecodePacket_Act4 (Some d) (Some s_act4)) = True \<and>
   CanBus_DecodePacket_Tst2 None out_tst2 = (False, out_tst2) \<and>
   CanBus_DecodePacket_Tst2 data None = (False, None) \<and>
   fst (CanBus_DecodePacket_Tst2 (Some d) (Some s_tst2)) = True"
  by (simp add: Ctl_null_guard Ctl_Simple_null_guard Req_null_guard Request_wrappers_null_guard
      Stat_null_guard Act1_null_guard Act2_null_guard Tst1_null_guard Fault_null_guard
      Software_null_guard SerialNumber_null_guard Act3_null_guard Temp_null_guard
      Stst1_null_guard Act4_null_guard Tst2_null_guard)

end
